theory Spec2Isabelle
  imports Main "HOL-Library.Word" "HOL-Library.Multiset"
begin

unbundle bit_operations_syntax

section \<open>Bytes, streams and errors\<close>

text \<open>
  The package \<open>binaryex\<close> writes values to an \<open>io.Writer\<close> and reads them from an
  \<open>io.Reader\<close>. Both are modelled as the in-memory buffer (\<open>bytes.Buffer\<close>) that every
  test of the repository uses: the writer is the list of bytes written so far (a write
  appends to it and never fails), the reader is the list of bytes not yet consumed.
  The embedding follows the current version of \<open>binaryex.go\<close> (the one that declares
  \<open>BinaryExError\<close> and \<open>ErrUnexpected\<close>).
\<close>

type_synonym byte = "8 word"
type_synonym uint64 = "64 word"
type_synonym int64 = "64 word"

text \<open>
  The three errors of the package, the errors of \<open>io\<close> and \<open>encoding/binary\<close> that pass
  through it unchanged, and \<open>Panic\<close> for a run-time panic of \<open>reflect\<close> or of an index
  expression.
\<close>

datatype error =
    ErrUnsupportedValue
  | ErrUnadressableValue
  | ErrUnexpected
  | EOF
  | ErrUnexpectedEOF
  | errOverflow
  | Panic

section \<open>The standard library: \<open>encoding/binary\<close> and \<open>io\<close>\<close>

definition MaxVarintLen64 :: nat where
  "MaxVarintLen64 = 10"

text \<open>
  \<open>binary.PutUvarint(buf, x)\<close>: the model returns \<open>buf[:n]\<close>, the bytes the callers write.
  \<^verbatim>\<open>for x >= 0x80 { buf[i] = byte(x) | 0x80; x >>= 7; i++ }; buf[i] = byte(x)\<close>
\<close>

function PutUvarint :: "uint64 \<Rightarrow> byte list" where
  "PutUvarint x =
     (if x \<ge> 0x80 then (ucast x OR 0x80) # PutUvarint (drop_bit 7 x) else [ucast x])"
  by pat_completeness auto
termination
proof (relation "measure unat")
  show "wf (measure unat)" by simp
next
  fix x :: uint64
  assume "x \<ge> 0x80"
  then have "unat x \<ge> 128" by (simp add: word_le_nat_alt)
  then have "unat x div 128 < unat x" by simp
  then show "(drop_bit 7 x, x) \<in> measure unat"
    by (simp add: drop_bit_eq_div unat_div)
qed

declare PutUvarint.simps [simp del]

text \<open>
  \<open>binary.PutVarint\<close>: zig-zag, then \<open>PutUvarint\<close>.
  \<^verbatim>\<open>ux := uint64(x) << 1; if x < 0 { ux = ^ux }\<close>
\<close>

definition zigzag :: "int64 \<Rightarrow> uint64" where
  "zigzag x = (let ux = push_bit 1 x in if x <s 0 then NOT ux else ux)"

definition PutVarint :: "int64 \<Rightarrow> byte list" where
  "PutVarint x = PutUvarint (zigzag x)"

text \<open>
  \<open>readByteWrapper.ReadByte\<close> over the buffer: one byte, or \<open>io.EOF\<close> when the buffer is
  empty. Results are \<open>(err, value, rest of the stream)\<close>.
\<close>

definition ReadByte :: "byte list \<Rightarrow> error option \<times> byte \<times> byte list" where
  "ReadByte r = (case r of [] \<Rightarrow> (Some EOF, 0, []) | b # r' \<Rightarrow> (None, b, r'))"

text \<open>
  \<open>binary.ReadUvarint\<close>, the loop \<open>for i := 0; i < MaxVarintLen64; i++\<close> with its
  variables \<open>i\<close>, \<open>s\<close> and \<open>x\<close>.
\<close>

function ReadUvarint_loop ::
  "nat \<Rightarrow> nat \<Rightarrow> uint64 \<Rightarrow> byte list \<Rightarrow> error option \<times> uint64 \<times> byte list" where
  "ReadUvarint_loop i s x r =
     (if i < MaxVarintLen64 then
        (case ReadByte r of
           (Some err, b, r') \<Rightarrow>
             (Some (if i > 0 \<and> err = EOF then ErrUnexpectedEOF else err), x, r')
         | (None, b, r') \<Rightarrow>
             if b < 0x80 then
               (if i = MaxVarintLen64 - 1 \<and> b > 1 then (Some errOverflow, x, r')
                else (None, x OR push_bit s (ucast b), r'))
             else ReadUvarint_loop (i + 1) (s + 7) (x OR push_bit s (ucast (b AND 0x7f))) r')
      else (Some errOverflow, x, r))"
  by pat_completeness auto
termination
  by (relation "measure (\<lambda>(i, s, x, r). MaxVarintLen64 - i)") auto

declare ReadUvarint_loop.simps [simp del]

definition ReadUvarint :: "byte list \<Rightarrow> error option \<times> uint64 \<times> byte list" where
  "ReadUvarint r = ReadUvarint_loop 0 0 0 r"

text \<open>
  \<open>binary.ReadVarint\<close>:
  \<^verbatim>\<open>ux, err := ReadUvarint(r); x := int64(ux >> 1); if ux&1 != 0 { x = ^x }; return x, err\<close>
\<close>

definition unzigzag :: "uint64 \<Rightarrow> int64" where
  "unzigzag ux = (let x = drop_bit 1 ux in if ux AND 1 \<noteq> 0 then NOT x else x)"

definition ReadVarint :: "byte list \<Rightarrow> error option \<times> int64 \<times> byte list" where
  "ReadVarint r = (case ReadUvarint r of (err, ux, r') \<Rightarrow> (err, unzigzag ux, r'))"

text \<open>
  \<open>binary.LittleEndian\<close>: the eight bytes of a 64-bit pattern, least significant first.
\<close>

definition le_bytes :: "uint64 \<Rightarrow> byte list" where
  "le_bytes x = map (\<lambda>i. ucast (drop_bit (8 * i) x)) [0..<8]"

fun le_uint64 :: "byte list \<Rightarrow> uint64" where
  "le_uint64 [] = 0"
| "le_uint64 (b # bs) = ucast b OR push_bit 8 (le_uint64 bs)"

text \<open>
  \<open>io.ReadFull(r, buf)\<close> with \<open>len(buf) = n\<close>, as \<open>binary.Read\<close> calls it: all \<open>n\<close> bytes, or
  \<open>io.EOF\<close> when nothing could be read and \<open>io.ErrUnexpectedEOF\<close> when the buffer ran out
  half way (it is then empty).
\<close>

definition ReadFull :: "byte list \<Rightarrow> nat \<Rightarrow> error option \<times> byte list \<times> byte list" where
  "ReadFull r n =
     (if n \<le> length r then (None, take n r, drop n r)
      else (Some (if r = [] then EOF else ErrUnexpectedEOF), r, []))"

text \<open>
  \<open>bytes.Buffer.Read(p)\<close> with \<open>len(p) = n\<close>, one call: \<open>io.EOF\<close> when the buffer is empty
  and \<open>n > 0\<close>; otherwise it copies what is there, at most \<open>n\<close> bytes, and returns no error
  even when fewer than \<open>n\<close> bytes were copied. The model returns the contents of \<open>p\<close>
  after the call: the bytes read, then the zero bytes \<open>p\<close> held before.
\<close>

definition BufferRead :: "byte list \<Rightarrow> nat \<Rightarrow> error option \<times> byte list \<times> byte list" where
  "BufferRead r n =
     (if r = [] \<and> 0 < n then (Some EOF, replicate n 0, [])
      else (None, take n r @ replicate (n - length r) 0, drop n r))"


section \<open>Types and values: the part of \<open>reflect\<close> the package uses\<close>

text \<open>
  A Go type, one constructor for each \<open>reflect.Kind\<close> (\<open>TBool\<close> for \<open>reflect.Bool\<close>, and so
  on). \<open>TInt\<close> and \<open>TUint\<close> are Go's \<open>int\<close> and \<open>uint\<close>, taken as 64 bits wide. Types are finite trees: a type that mentions itself
  through a pointer, slice or map is outside the model (on such a type the decoder
  recurses for as long as the stream feeds it).
\<close>

datatype gtype =
    TInvalid
  | TBool
  | TInt | TInt8 | TInt16 | TInt32 | TInt64
  | TUint | TUint8 | TUint16 | TUint32 | TUint64 | TUintptr
  | TFloat32 | TFloat64
  | TComplex64 | TComplex128
  | TArray nat gtype
  | TChan
  | TFunc
  | TInterface
  | TMap gtype gtype
  | TPtr gtype
  | TSlice gtype
  | TString
  | TStruct "(string \<times> gtype) list"
  | TUnsafePointer

text \<open>
  A Go value, as the accessors of \<open>reflect.Value\<close> show it:
  \<^item> \<open>VInt\<close> holds \<open>v.Int()\<close> and \<open>VUint\<close> holds \<open>v.Uint()\<close>, the value widened to 64 bits;
  \<^item> \<open>VFloat\<close> holds the bits of \<open>v.Float()\<close>, the value as a \<open>float64\<close> (so a \<open>float32\<close> is
    held promoted), and \<open>VComplex\<close> the bits of the real and imaginary part of \<open>v.Complex()\<close>;
  \<^item> \<open>VString\<close> holds the bytes of the string;
  \<^item> \<open>VMap\<close> holds the entries in the order in which \<open>v.MapKeys()\<close> lists the keys in this
    call; Go leaves that order open, so the same map may show as any permutation;
  \<^item> \<open>VStruct\<close> holds the field values in declaration order (the names are in the type);
  \<^item> a pointer is \<open>VNilPtr\<close> or \<open>VPtr\<close> of the value it points to; nothing the package does
    depends on two pointers being the same address;
  \<^item> \<open>VOpaque\<close> is a channel, function, interface or unsafe pointer, \<open>VInvalid\<close> the zero
    \<open>reflect.Value\<close>.
  A \<open>reflect.Value\<close> is a type, a value and the flag \<open>CanAddr\<close>.
\<close>

datatype gval =
    VInvalid
  | VBool bool
  | VInt int64
  | VUint uint64
  | VFloat uint64
  | VComplex uint64 uint64
  | VString string
  | VArray "gval list"
  | VNilSlice
  | VSlice "gval list"
  | VNilMap
  | VMap "(gval \<times> gval) list"
  | VStruct "gval list"
  | VNilPtr
  | VPtr gval
  | VOpaque

type_synonym wres = "error option \<times> byte list"
type_synonym rres = "error option \<times> gval \<times> byte list"

text \<open>\<open>reflect.Zero\<close> and \<open>reflect.New\<close>: the zero value of a type.\<close>

fun Zero :: "gtype \<Rightarrow> gval" where
  "Zero TInvalid = VInvalid"
| "Zero TBool = VBool False"
| "Zero TInt = VInt 0" | "Zero TInt8 = VInt 0" | "Zero TInt16 = VInt 0"
| "Zero TInt32 = VInt 0" | "Zero TInt64 = VInt 0"
| "Zero TUint = VUint 0" | "Zero TUint8 = VUint 0" | "Zero TUint16 = VUint 0"
| "Zero TUint32 = VUint 0" | "Zero TUint64 = VUint 0" | "Zero TUintptr = VUint 0"
| "Zero TFloat32 = VFloat 0" | "Zero TFloat64 = VFloat 0"
| "Zero TComplex64 = VComplex 0 0" | "Zero TComplex128 = VComplex 0 0"
| "Zero (TArray n te) = VArray (replicate n (Zero te))"
| "Zero TChan = VOpaque"
| "Zero TFunc = VOpaque"
| "Zero TInterface = VOpaque"
| "Zero (TMap kt vt) = VNilMap"
| "Zero (TPtr te) = VNilPtr"
| "Zero (TSlice te) = VNilSlice"
| "Zero TString = VString []"
| "Zero (TStruct fs) = VStruct (map (\<lambda>f. Zero (snd f)) fs)"
| "Zero TUnsafePointer = VOpaque"

text \<open>
  \<open>reflect.Indirect\<close>: the value a pointer points to, the zero \<open>reflect.Value\<close> for a nil
  pointer, and the value itself when it is no pointer.
\<close>

definition Indirect :: "gtype \<Rightarrow> gval \<Rightarrow> gtype \<times> gval" where
  "Indirect t v =
     (case t of
        TPtr te \<Rightarrow> (case v of VPtr x \<Rightarrow> (te, x) | _ \<Rightarrow> (TInvalid, VInvalid))
      | _ \<Rightarrow> (t, v))"

text \<open>
  \<open>SetInt\<close>, \<open>SetUint\<close>, \<open>SetFloat\<close> and \<open>SetComplex\<close> store a 64-bit value in a variable of
  the destination's width; the result is what the accessor returns afterwards. The
  conversion \<open>float32(x)\<close> is rounding done by the hardware: it is the parameter \<open>f32\<close>,
  which maps the bits of a \<open>float64\<close> to the bits of that value rounded to \<open>float32\<close> and
  promoted again.
\<close>

definition SetInt :: "gtype \<Rightarrow> int64 \<Rightarrow> gval" where
  "SetInt t x =
     (if t = TInt8 then VInt (signed_take_bit 7 x)
      else if t = TInt16 then VInt (signed_take_bit 15 x)
      else if t = TInt32 then VInt (signed_take_bit 31 x)
      else VInt x)"

definition SetUint :: "gtype \<Rightarrow> uint64 \<Rightarrow> gval" where
  "SetUint t x =
     (if t = TUint8 then VUint (take_bit 8 x)
      else if t = TUint16 then VUint (take_bit 16 x)
      else if t = TUint32 then VUint (take_bit 32 x)
      else VUint x)"

definition SetFloat :: "(uint64 \<Rightarrow> uint64) \<Rightarrow> gtype \<Rightarrow> uint64 \<Rightarrow> gval" where
  "SetFloat f32 t x = (if t = TFloat32 then VFloat (f32 x) else VFloat x)"

definition SetComplex :: "(uint64 \<Rightarrow> uint64) \<Rightarrow> gtype \<Rightarrow> uint64 \<Rightarrow> uint64 \<Rightarrow> gval" where
  "SetComplex f32 t re im =
     (if t = TComplex64 then VComplex (f32 re) (f32 im) else VComplex re im)"

text \<open>The bytes of a Go string and back.\<close>

definition byte_of_char :: "char \<Rightarrow> byte" where
  "byte_of_char c = of_nat (of_char c)"

definition char_of_byte :: "byte \<Rightarrow> char" where
  "char_of_byte b = char_of (unat b)"

text \<open>
  Field names. \<open>strings.ToLower\<close> is modelled on ASCII names (Unicode case mapping is not);
  \<open>IsExported\<close> is Go's rule that a name is exported when it starts with an upper-case
  letter, and \<open>CanSet\<close> of a field is: the struct is addressable and the field exported.
\<close>

definition lower_char :: "char \<Rightarrow> char" where
  "lower_char c =
     (let n = (of_char c :: nat) in if 65 \<le> n \<and> n \<le> 90 then char_of (n + 32) else c)"

definition ToLower :: "string \<Rightarrow> string" where
  "ToLower s = map lower_char s"

definition IsExported :: "string \<Rightarrow> bool" where
  "IsExported fname =
     (case fname of [] \<Rightarrow> False | c # _ \<Rightarrow> 65 \<le> (of_char c :: nat) \<and> (of_char c :: nat) \<le> 90)"

definition CanSet :: "bool \<Rightarrow> string \<Rightarrow> bool" where
  "CanSet a fname \<longleftrightarrow> a \<and> IsExported fname"


section \<open>Writing\<close>

text \<open>
  \<open>WriteBoolReflect\<close>. An accessor of \<open>reflect\<close> used on a value of another kind panics; a
  value whose shape does not fit its type does not exist in Go and is given the same
  result.
\<close>

definition WriteBoolReflect :: "byte list \<Rightarrow> gtype \<Rightarrow> gval \<Rightarrow> wres" where
  "WriteBoolReflect w t v =
     (case v of
        VBool b \<Rightarrow> if b then (None, w @ [1]) else (None, w @ [0])
      | _ \<Rightarrow> (Some Panic, w))"

text \<open>
  \<open>WriteNumberReflect\<close>: the switch on \<open>v.Kind()\<close>. \<open>binary.Write\<close> of a \<open>float64\<close> writes
  its eight bytes, of a \<open>complex128\<close> the real part and then the imaginary part.
\<close>

definition WriteNumberReflect :: "byte list \<Rightarrow> gtype \<Rightarrow> gval \<Rightarrow> wres" where
  "WriteNumberReflect w t v =
     (if t \<in> {TInt, TInt8, TInt16, TInt32, TInt64} then
        (case v of VInt x \<Rightarrow> (None, w @ PutVarint x) | _ \<Rightarrow> (Some Panic, w))
      else if t \<in> {TUint, TUint8, TUint16, TUint32, TUint64} then
        (case v of VUint x \<Rightarrow> (None, w @ PutUvarint x) | _ \<Rightarrow> (Some Panic, w))
      else if t \<in> {TFloat32, TFloat64} then
        (case v of VFloat x \<Rightarrow> (None, w @ le_bytes x) | _ \<Rightarrow> (Some Panic, w))
      else if t \<in> {TComplex64, TComplex128} then
        (case v of VComplex re im \<Rightarrow> (None, w @ le_bytes re @ le_bytes im)
         | _ \<Rightarrow> (Some Panic, w))
      else (Some ErrUnsupportedValue, w))"

definition WriteNumber :: "byte list \<Rightarrow> gtype \<Rightarrow> gval \<Rightarrow> wres" where
  "WriteNumber w t n = (case Indirect t n of (t', v) \<Rightarrow> WriteNumberReflect w t' v)"

text \<open>\<open>v.Len()\<close> as the Go \<open>int\<close> that \<open>WriteNumber\<close> receives.\<close>

definition WriteLen :: "byte list \<Rightarrow> nat \<Rightarrow> wres" where
  "WriteLen w n = WriteNumber w TInt (VInt (of_nat n))"

definition WriteStringReflect :: "byte list \<Rightarrow> gtype \<Rightarrow> gval \<Rightarrow> wres" where
  "WriteStringReflect w t v =
     (case v of
        VString s \<Rightarrow>
          (case WriteLen w (length s) of
             (Some err, w') \<Rightarrow> (Some err, w')
           | (None, w') \<Rightarrow> (None, w' @ map byte_of_char s))
      | _ \<Rightarrow> (Some Panic, w))"

text \<open>
  \<open>WriteReflect\<close> and the writers that call it back. The loop that strips pointers is the
  recursion of \<open>WriteReflect\<close> on the pointee; \<open>v.Elem()\<close> of a nil pointer is the zero
  \<open>reflect.Value\<close>, for which \<open>WriteNumber(w, 0)\<close> is written. The value is taken not to
  implement \<open>encoding.BinaryMarshaler\<close>. The loops over \<open>v.Index(i)\<close> and over the fields
  are recursions over the elements and fields still to do: \<open>WriteIndex_loop\<close> has the
  number \<open>n\<close> of iterations left, \<open>WriteStruct_loop\<close> the struct type of the fields left.
  \<open>v.MapKeys()\<close> is the list of the keys and \<open>v.MapIndex(mk)\<close> the value stored under
  \<open>mk\<close>, the zero \<open>reflect.Value\<close> if there is none.
\<close>

function WriteReflect :: "byte list \<Rightarrow> gtype \<Rightarrow> gval \<Rightarrow> wres"
  and WriteArrayReflect :: "byte list \<Rightarrow> gtype \<Rightarrow> gval \<Rightarrow> wres"
  and WriteSliceReflect :: "byte list \<Rightarrow> gtype \<Rightarrow> gval \<Rightarrow> wres"
  and WriteMapReflect :: "byte list \<Rightarrow> gtype \<Rightarrow> gval \<Rightarrow> wres"
  and WriteStructReflect :: "byte list \<Rightarrow> gtype \<Rightarrow> gval \<Rightarrow> wres"
  and WriteIndex_loop :: "byte list \<Rightarrow> gtype \<Rightarrow> nat \<Rightarrow> gval list \<Rightarrow> wres"
  and WriteMap_loop :: "byte list \<Rightarrow> gtype \<Rightarrow> (gval \<times> gval) list \<Rightarrow> gval list \<Rightarrow> wres"
  and WriteStruct_loop :: "byte list \<Rightarrow> gtype \<Rightarrow> gval list \<Rightarrow> wres"
where
  "WriteReflect w t v =
     (case t of
        TPtr te \<Rightarrow>
          (case v of
             VPtr x \<Rightarrow> WriteReflect w te x
           | VNilPtr \<Rightarrow> WriteNumber w TInt (VInt 0)
           | _ \<Rightarrow> (Some Panic, w))
      | TInvalid \<Rightarrow> WriteNumber w TInt (VInt 0)
      | TBool \<Rightarrow> WriteBoolReflect w t v
      | TString \<Rightarrow> WriteStringReflect w t v
      | TArray n te \<Rightarrow> WriteArrayReflect w t v
      | TSlice te \<Rightarrow> WriteSliceReflect w t v
      | TMap kt vt \<Rightarrow> WriteMapReflect w t v
      | TStruct fs \<Rightarrow> WriteStructReflect w t v
      | _ \<Rightarrow> WriteNumberReflect w t v)"
| "WriteArrayReflect w t v =
     (case t of
        TArray n te \<Rightarrow>
          (case v of VArray xs \<Rightarrow> WriteIndex_loop w t n xs | _ \<Rightarrow> (Some Panic, w))
      | _ \<Rightarrow> (Some Panic, w))"
| "WriteSliceReflect w t v =
     (case t of
        TSlice te \<Rightarrow>
          (case v of
             VSlice xs \<Rightarrow>
               (case WriteLen w (length xs) of
                  (Some err, w') \<Rightarrow> (Some err, w')
                | (None, w') \<Rightarrow> WriteIndex_loop w' t (length xs) xs)
           | VNilSlice \<Rightarrow> WriteLen w 0
           | _ \<Rightarrow> (Some Panic, w))
      | _ \<Rightarrow> (Some Panic, w))"
| "WriteMapReflect w t v =
     (case t of
        TMap kt vt \<Rightarrow>
          (case v of
             VMap kvs \<Rightarrow>
               (case WriteLen w (length kvs) of
                  (Some err, w') \<Rightarrow> (Some err, w')
                | (None, w') \<Rightarrow> WriteMap_loop w' t kvs (map fst kvs))
           | VNilMap \<Rightarrow> WriteLen w 0
           | _ \<Rightarrow> (Some Panic, w))
      | _ \<Rightarrow> (Some Panic, w))"
| "WriteStructReflect w t v =
     (case t of
        TStruct fs \<Rightarrow>
          (case v of VStruct vs \<Rightarrow> WriteStruct_loop w t vs | _ \<Rightarrow> (Some Panic, w))
      | _ \<Rightarrow> (Some Panic, w))"
| "WriteIndex_loop w t n xs =
     (case n of
        0 \<Rightarrow> (None, w)
      | Suc m \<Rightarrow>
          (case xs of
             [] \<Rightarrow> (Some Panic, w)
           | x # xs' \<Rightarrow>
               (case t of
                  TArray k te \<Rightarrow>
                    (case WriteReflect w te x of
                       (Some err, w') \<Rightarrow> (Some err, w')
                     | (None, w') \<Rightarrow> WriteIndex_loop w' t m xs')
                | TSlice te \<Rightarrow>
                    (case WriteReflect w te x of
                       (Some err, w') \<Rightarrow> (Some err, w')
                     | (None, w') \<Rightarrow> WriteIndex_loop w' t m xs')
                | _ \<Rightarrow> (Some Panic, w))))"
| "WriteMap_loop w t kvs keys =
     (case keys of
        [] \<Rightarrow> (None, w)
      | mk # keys' \<Rightarrow>
          (case t of
             TMap kt vt \<Rightarrow>
               (case WriteReflect w kt mk of
                  (Some err, w') \<Rightarrow> (Some err, w')
                | (None, w') \<Rightarrow>
                    (case (case map_of kvs mk of
                             Some mv \<Rightarrow> WriteReflect w' vt mv
                           | None \<Rightarrow> WriteReflect w' TInvalid VInvalid) of
                       (Some err, w'') \<Rightarrow> (Some err, w'')
                     | (None, w'') \<Rightarrow> WriteMap_loop w'' t kvs keys'))
           | _ \<Rightarrow> (Some Panic, w)))"
| "WriteStruct_loop w t vs =
     (case t of
        TStruct [] \<Rightarrow> (None, w)
      | TStruct ((fname, ft) # fs') \<Rightarrow>
          (case vs of
             [] \<Rightarrow> (Some Panic, w)
           | x # vs' \<Rightarrow>
               if fname = ''_'' then WriteStruct_loop w (TStruct fs') vs'
               else if fname = [] then (Some Panic, w)
               else if hd fname = hd (ToLower fname) then WriteStruct_loop w (TStruct fs') vs'
               else
                 (case WriteReflect w ft x of
                    (Some err, w') \<Rightarrow> (Some err, w')
                  | (None, w') \<Rightarrow> WriteStruct_loop w' (TStruct fs') vs'))
      | _ \<Rightarrow> (Some Panic, w))"

  by pat_completeness auto
termination
  by (relation "inv_image (less_than <*lex*> less_than <*lex*> less_than)
        (\<lambda>x. case x of
            Inl (Inl (Inl (w, t, v))) \<Rightarrow> (size t, 2::nat, 0::nat)
          | Inl (Inl (Inr (w, t, v))) \<Rightarrow> (size t, 1, 0)
          | Inl (Inr (Inl (w, t, v))) \<Rightarrow> (size t, 1, 0)
          | Inl (Inr (Inr (w, t, v))) \<Rightarrow> (size t, 1, 0)
          | Inr (Inl (Inl (w, t, v))) \<Rightarrow> (size t, 1, 0)
          | Inr (Inl (Inr (w, t, n, xs))) \<Rightarrow> (size t, 0, n)
          | Inr (Inr (Inl (w, t, kvs, keys))) \<Rightarrow> (size t, 0, length keys)
          | Inr (Inr (Inr (w, t, vs))) \<Rightarrow> (size t, 0, 0))") auto

declare WriteReflect.simps [simp del] WriteArrayReflect.simps [simp del]
  WriteSliceReflect.simps [simp del] WriteMapReflect.simps [simp del]
  WriteStructReflect.simps [simp del] WriteIndex_loop.simps [simp del]
  WriteMap_loop.simps [simp del] WriteStruct_loop.simps [simp del]

text \<open>
  The entry points take an \<open>interface{}\<close>, here its type and value:
  \<^verbatim>\<open>v := reflect.Indirect(reflect.ValueOf(val)); return WriteReflect(w, v)\<close>
  \<open>WriteChan\<close> is the unfinished stub of the source.
\<close>

definition Write :: "byte list \<Rightarrow> gtype \<Rightarrow> gval \<Rightarrow> wres" where
  "Write w t val = (case Indirect t val of (t', v) \<Rightarrow> WriteReflect w t' v)"

definition WriteBool :: "byte list \<Rightarrow> bool \<Rightarrow> wres" where
  "WriteBool w b = (case Indirect TBool (VBool b) of (t', v) \<Rightarrow> WriteBoolReflect w t' v)"

definition WriteString :: "byte list \<Rightarrow> string \<Rightarrow> wres" where
  "WriteString w s = (case Indirect TString (VString s) of (t', v) \<Rightarrow> WriteStringReflect w t' v)"

definition WriteArray :: "byte list \<Rightarrow> gtype \<Rightarrow> gval \<Rightarrow> wres" where
  "WriteArray w t val = (case Indirect t val of (t', v) \<Rightarrow> WriteArrayReflect w t' v)"

definition WriteSlice :: "byte list \<Rightarrow> gtype \<Rightarrow> gval \<Rightarrow> wres" where
  "WriteSlice w t val = (case Indirect t val of (t', v) \<Rightarrow> WriteSliceReflect w t' v)"

definition WriteMap :: "byte list \<Rightarrow> gtype \<Rightarrow> gval \<Rightarrow> wres" where
  "WriteMap w t val = (case Indirect t val of (t', v) \<Rightarrow> WriteMapReflect w t' v)"

definition WriteStruct :: "byte list \<Rightarrow> gtype \<Rightarrow> gval \<Rightarrow> wres" where
  "WriteStruct w t val = (case Indirect t val of (t', v) \<Rightarrow> WriteStructReflect w t' v)"

definition WriteChan :: "byte list \<Rightarrow> gtype \<Rightarrow> gval \<Rightarrow> wres" where
  "WriteChan w t val = (None, w)"


section \<open>Reading\<close>

text \<open>
  Every reader returns the error, the value the destination \<open>v\<close> holds after the call
  and the rest of the stream. The first argument \<open>f32\<close> is the conversion to \<open>float32\<close>
  (see \<open>SetFloat\<close>); \<open>a\<close> is \<open>v.CanAddr()\<close>.
\<close>

definition ReadBoolReflect :: "byte list \<Rightarrow> gtype \<Rightarrow> gval \<Rightarrow> bool \<Rightarrow> rres" where
  "ReadBoolReflect r t v a =
     (if \<not> a then (Some ErrUnadressableValue, v, r)
      else
        (case BufferRead r 1 of
           (Some err, p, r') \<Rightarrow> (Some err, v, r')
         | (None, p, r') \<Rightarrow>
             if p ! 0 = 0 then
               (if t = TBool then (None, VBool False, r') else (Some Panic, v, r'))
             else if p ! 0 = 1 then
               (if t = TBool then (None, VBool True, r') else (Some Panic, v, r'))
             else (Some ErrUnexpected, v, r')))"

text \<open>
  \<open>ReadNumberReflect\<close>. \<open>binary.Read\<close> fills eight bytes for a \<open>float64\<close> and sixteen for a
  \<open>complex128\<close> with \<open>io.ReadFull\<close>.
\<close>

definition ReadNumberReflect ::
  "(uint64 \<Rightarrow> uint64) \<Rightarrow> byte list \<Rightarrow> gtype \<Rightarrow> gval \<Rightarrow> bool \<Rightarrow> rres" where
  "ReadNumberReflect f32 r t v a =
     (if \<not> a then (Some ErrUnadressableValue, v, r)
      else if t \<in> {TInt, TInt8, TInt16, TInt32, TInt64} then
        (case ReadVarint r of
           (Some e, n, r') \<Rightarrow> (Some e, v, r')
         | (None, n, r') \<Rightarrow> (None, SetInt t n, r'))
      else if t \<in> {TUint, TUint8, TUint16, TUint32, TUint64} then
        (case ReadUvarint r of
           (Some e, n, r') \<Rightarrow> (Some e, v, r')
         | (None, n, r') \<Rightarrow> (None, SetUint t n, r'))
      else if t \<in> {TFloat32, TFloat64} then
        (case ReadFull r 8 of
           (Some err, bs, r') \<Rightarrow> (Some err, v, r')
         | (None, bs, r') \<Rightarrow> (None, SetFloat f32 t (le_uint64 bs), r'))
      else if t \<in> {TComplex64, TComplex128} then
        (case ReadFull r 16 of
           (Some err, bs, r') \<Rightarrow> (Some err, v, r')
         | (None, bs, r') \<Rightarrow>
             (None, SetComplex f32 t (le_uint64 (take 8 bs)) (le_uint64 (drop 8 bs)), r'))
      else (Some ErrUnsupportedValue, v, r))"

text \<open>
  The entry points take an \<open>interface{}\<close>:
  \<^verbatim>\<open>v := reflect.Indirect(reflect.ValueOf(val)); return ReadReflect(r, v)\<close>
  \<open>v\<close> is addressable exactly when \<open>val\<close> is a pointer that is not nil, and what the reader
  stores in \<open>v\<close> is then what \<open>val\<close> points to afterwards. Otherwise \<open>v\<close> is a copy (or the
  zero \<open>reflect.Value\<close>) and \<open>val\<close> stays as it is.
\<close>

definition ReadEntry ::
  "(byte list \<Rightarrow> gtype \<Rightarrow> gval \<Rightarrow> bool \<Rightarrow> rres) \<Rightarrow> byte list \<Rightarrow> gtype \<Rightarrow> gval \<Rightarrow> rres" where
  "ReadEntry f r t val =
     (case t of
        TPtr te \<Rightarrow>
          (case val of
             VPtr x \<Rightarrow> (case f r te x True of (err, x', r') \<Rightarrow> (err, VPtr x', r'))
           | _ \<Rightarrow> (case f r TInvalid VInvalid False of (err, x', r') \<Rightarrow> (err, val, r')))
      | _ \<Rightarrow> (case f r t val False of (err, x', r') \<Rightarrow> (err, val, r')))"

definition ReadNumber ::
  "(uint64 \<Rightarrow> uint64) \<Rightarrow> byte list \<Rightarrow> gtype \<Rightarrow> gval \<Rightarrow> rres" where
  "ReadNumber f32 r t n = ReadEntry (ReadNumberReflect f32) r t n"

text \<open>The idiom \<^verbatim>\<open>l := 0; err = ReadNumber(r, &l)\<close>: the error, \<open>l\<close> and the rest.\<close>

definition ReadLen ::
  "(uint64 \<Rightarrow> uint64) \<Rightarrow> byte list \<Rightarrow> error option \<times> int64 \<times> byte list" where
  "ReadLen f32 r =
     (case ReadNumber f32 r (TPtr TInt) (VPtr (VInt 0)) of
        (err, VPtr (VInt l), r') \<Rightarrow> (err, l, r')
      | (err, _, r') \<Rightarrow> (err, 0, r'))"

text \<open>
  \<open>ReadStringReflect\<close>. The bytes are fetched with a single \<open>r.Read(buf)\<close>, so a stream
  shorter than the length prefix gives a string that ends in zero bytes, and no error.
\<close>

definition ReadStringReflect ::
  "(uint64 \<Rightarrow> uint64) \<Rightarrow> byte list \<Rightarrow> gtype \<Rightarrow> gval \<Rightarrow> bool \<Rightarrow> rres" where
  "ReadStringReflect f32 r t v a =
     (if \<not> a then (Some ErrUnadressableValue, v, r)
      else
        (case ReadLen f32 r of
           (Some err, l, r') \<Rightarrow> (Some err, v, r')
         | (None, l, r') \<Rightarrow>
             if l <s 0 then (Some ErrUnexpected, v, r')
             else if l = 0 then (None, Zero t, r')
             else
               (case BufferRead r' (unat l) of
                  (Some err, buf, r'') \<Rightarrow> (Some err, v, r'')
                | (None, buf, r'') \<Rightarrow>
                    if t = TString then (None, VString (map char_of_byte buf), r'')
                    else (Some Panic, v, r''))))"

text \<open>\<open>v.SetMapIndex(kv, vv)\<close>: replace the value of a key that is there, else add the entry.\<close>

definition SetMapIndex :: "(gval \<times> gval) list \<Rightarrow> gval \<Rightarrow> gval \<Rightarrow> (gval \<times> gval) list" where
  "SetMapIndex m kv vv =
     (if kv \<in> fst ` set m then map (\<lambda>(k, x). if k = kv then (k, vv) else (k, x)) m
      else m @ [(kv, vv)])"

text \<open>
  \<open>ReadReflect\<close> and the readers that call it back. \<open>nt\<close> is the type of the temporary
  \<open>nv\<close> (\<open>reflect.New\<close> of the pointee type when \<open>v\<close> is a pointer, of the type of \<open>v\<close>
  otherwise); the two places where the source assigns the temporary to \<open>v\<close> are the one
  last case. The value is taken not to implement \<open>encoding.BinaryUnmarshaler\<close>.
  \<open>ReadIndex_loop\<close> is the loop \<^verbatim>\<open>for i := 0; i < l; i++\<close> over \<open>v.Index(i)\<close> of arrays and
  slices, \<open>ReadMap_loop\<close> that of maps, \<open>ReadStruct_loop\<close> the loop over the fields.
\<close>

function ReadReflect ::
    "(uint64 \<Rightarrow> uint64) \<Rightarrow> byte list \<Rightarrow> gtype \<Rightarrow> gval \<Rightarrow> bool \<Rightarrow> rres"
  and ReadArrayReflect ::
    "(uint64 \<Rightarrow> uint64) \<Rightarrow> byte list \<Rightarrow> gtype \<Rightarrow> gval \<Rightarrow> bool \<Rightarrow> rres"
  and ReadSliceReflect ::
    "(uint64 \<Rightarrow> uint64) \<Rightarrow> byte list \<Rightarrow> gtype \<Rightarrow> gval \<Rightarrow> bool \<Rightarrow> rres"
  and ReadMapReflect ::
    "(uint64 \<Rightarrow> uint64) \<Rightarrow> byte list \<Rightarrow> gtype \<Rightarrow> gval \<Rightarrow> bool \<Rightarrow> rres"
  and ReadStructReflect ::
    "(uint64 \<Rightarrow> uint64) \<Rightarrow> byte list \<Rightarrow> gtype \<Rightarrow> gval \<Rightarrow> bool \<Rightarrow> rres"
  and ReadIndex_loop ::
    "(uint64 \<Rightarrow> uint64) \<Rightarrow> byte list \<Rightarrow> gtype \<Rightarrow> nat \<Rightarrow> gval list
      \<Rightarrow> error option \<times> gval list \<times> byte list"
  and ReadMap_loop ::
    "(uint64 \<Rightarrow> uint64) \<Rightarrow> byte list \<Rightarrow> gtype \<Rightarrow> nat \<Rightarrow> (gval \<times> gval) list
      \<Rightarrow> error option \<times> (gval \<times> gval) list \<times> byte list"
  and ReadStruct_loop ::
    "(uint64 \<Rightarrow> uint64) \<Rightarrow> byte list \<Rightarrow> gtype \<Rightarrow> gval list
      \<Rightarrow> error option \<times> gval list \<times> byte list"
where
  "ReadReflect f32 r t v a =
     (if \<not> a then (Some ErrUnadressableValue, v, r)
      else
        let ptr = (case t of TPtr te \<Rightarrow> True | _ \<Rightarrow> False);
            nt = (case t of TPtr te \<Rightarrow> te | _ \<Rightarrow> t);
            nv = Zero nt
        in
          (case
             (case nt of
                TPtr te' \<Rightarrow> ReadReflect f32 r nt nv True
              | TBool \<Rightarrow> ReadBoolReflect r nt nv True
              | TString \<Rightarrow> ReadStringReflect f32 r nt nv True
              | TArray n te' \<Rightarrow> ReadArrayReflect f32 r nt nv True
              | TSlice te' \<Rightarrow> ReadSliceReflect f32 r nt nv True
              | TMap kt vt \<Rightarrow> ReadMapReflect f32 r nt nv True
              | TStruct fs \<Rightarrow> ReadStructReflect f32 r nt nv True
              | _ \<Rightarrow> ReadNumberReflect f32 r nt nv True)
           of
             (Some err, nv', r') \<Rightarrow> (Some err, v, r')
           | (None, nv', r') \<Rightarrow> (None, if ptr then VPtr nv' else nv', r')))"
| "ReadArrayReflect f32 r t v a =
     (if \<not> a then (Some ErrUnadressableValue, v, r)
      else
        (case t of
           TArray n te \<Rightarrow>
             (case v of
                VArray xs \<Rightarrow>
                  (case ReadIndex_loop f32 r t n xs of (err, xs', r') \<Rightarrow> (err, VArray xs', r'))
              | _ \<Rightarrow> (Some Panic, v, r))
         | _ \<Rightarrow> (Some Panic, v, r)))"
| "ReadSliceReflect f32 r t v a =
     (if \<not> a then (Some ErrUnadressableValue, v, r)
      else
        (case ReadLen f32 r of
           (Some err, l, r') \<Rightarrow> (Some err, v, r')
         | (None, l, r') \<Rightarrow>
             if l <s 0 then (Some ErrUnexpected, v, r')
             else
               (case t of
                  TSlice te \<Rightarrow>
                    (case ReadIndex_loop f32 r' t (unat l) (replicate (unat l) (Zero te)) of
                       (err, xs', r'') \<Rightarrow> (err, VSlice xs', r''))
                | _ \<Rightarrow> (Some Panic, v, r'))))"
| "ReadMapReflect f32 r t v a =
     (if \<not> a then (Some ErrUnadressableValue, v, r)
      else
        (case ReadLen f32 r of
           (Some err, l, r') \<Rightarrow> (Some err, v, r')
         | (None, l, r') \<Rightarrow>
             if l <s 0 then (Some ErrUnexpected, v, r')
             else
               (case t of
                  TMap kt vt \<Rightarrow>
                    (case ReadMap_loop f32 r' t (unat l) [] of
                       (err, m, r'') \<Rightarrow> (err, VMap m, r''))
                | _ \<Rightarrow> (Some Panic, v, r'))))"
| "ReadStructReflect f32 r t v a =
     (if \<not> a then (Some ErrUnadressableValue, v, r)
      else
        (case t of
           TStruct fs \<Rightarrow>
             (case v of
                VStruct vs \<Rightarrow>
                  (case ReadStruct_loop f32 r t vs of (err, vs', r') \<Rightarrow> (err, VStruct vs', r'))
              | _ \<Rightarrow> (Some Panic, v, r))
         | _ \<Rightarrow> (Some Panic, v, r)))"
| "ReadIndex_loop f32 r t n xs =
     (case n of
        0 \<Rightarrow> (None, xs, r)
      | Suc m \<Rightarrow>
          (case xs of
             [] \<Rightarrow> (Some Panic, xs, r)
           | x # xs' \<Rightarrow>
               (case t of
                  TArray k te \<Rightarrow>
                    (case ReadReflect f32 r te x True of
                       (Some err, x', r') \<Rightarrow> (Some err, x' # xs', r')
                     | (None, x', r') \<Rightarrow>
                         (case ReadIndex_loop f32 r' t m xs' of
                            (err, ys, r'') \<Rightarrow> (err, x' # ys, r'')))
                | TSlice te \<Rightarrow>
                    (case ReadReflect f32 r te x True of
                       (Some err, x', r') \<Rightarrow> (Some err, x' # xs', r')
                     | (None, x', r') \<Rightarrow>
                         (case ReadIndex_loop f32 r' t m xs' of
                            (err, ys, r'') \<Rightarrow> (err, x' # ys, r'')))
                | _ \<Rightarrow> (Some Panic, xs, r))))"
| "ReadMap_loop f32 r t n m =
     (case n of
        0 \<Rightarrow> (None, m, r)
      | Suc k \<Rightarrow>
          (case t of
             TMap kt vt \<Rightarrow>
               (case ReadReflect f32 r kt (Zero kt) True of
                  (Some err, kv, r') \<Rightarrow> (Some err, m, r')
                | (None, kv, r') \<Rightarrow>
                    (case ReadReflect f32 r' vt (Zero vt) True of
                       (Some err, vv, r'') \<Rightarrow> (Some err, m, r'')
                     | (None, vv, r'') \<Rightarrow> ReadMap_loop f32 r'' t k (SetMapIndex m kv vv)))
           | _ \<Rightarrow> (Some Panic, m, r)))"
| "ReadStruct_loop f32 r t vs =
     (case t of
        TStruct [] \<Rightarrow> (None, vs, r)
      | TStruct ((fname, ft) # fs') \<Rightarrow>
          (case vs of
             [] \<Rightarrow> (Some Panic, vs, r)
           | x # vs' \<Rightarrow>
               if fname = ''_'' then
                 (case ReadStruct_loop f32 r (TStruct fs') vs' of
                    (err, ys, r') \<Rightarrow> (err, x # ys, r'))
               else if fname = [] then (Some Panic, vs, r)
               else if hd fname = hd (ToLower fname) then
                 (case ReadStruct_loop f32 r (TStruct fs') vs' of
                    (err, ys, r') \<Rightarrow> (err, x # ys, r'))
               else if \<not> CanSet True fname then
                 (case ReadStruct_loop f32 r (TStruct fs') vs' of
                    (err, ys, r') \<Rightarrow> (err, x # ys, r'))
               else
                 (case ReadReflect f32 r ft x True of
                    (Some err, x', r') \<Rightarrow> (Some err, x' # vs', r')
                  | (None, x', r') \<Rightarrow>
                      (case ReadStruct_loop f32 r' (TStruct fs') vs' of
                         (err, ys, r'') \<Rightarrow> (err, x' # ys, r''))))
      | _ \<Rightarrow> (Some Panic, vs, r))"
  by pat_completeness auto
termination
  by (relation "inv_image (less_than <*lex*> less_than <*lex*> less_than)
        (\<lambda>x. case x of
            Inl (Inl (Inl (f32, r, t, v, a))) \<Rightarrow> (size t, 2::nat, 0::nat)
          | Inl (Inl (Inr (f32, r, t, v, a))) \<Rightarrow> (size t, 1, 0)
          | Inl (Inr (Inl (f32, r, t, v, a))) \<Rightarrow> (size t, 1, 0)
          | Inl (Inr (Inr (f32, r, t, v, a))) \<Rightarrow> (size t, 1, 0)
          | Inr (Inl (Inl (f32, r, t, v, a))) \<Rightarrow> (size t, 1, 0)
          | Inr (Inl (Inr (f32, r, t, n, xs))) \<Rightarrow> (size t, 0, n)
          | Inr (Inr (Inl (f32, r, t, n, m))) \<Rightarrow> (size t, 0, n)
          | Inr (Inr (Inr (f32, r, t, vs))) \<Rightarrow> (size t, 0, 0))")
     (auto split: gtype.splits)

declare ReadReflect.simps [simp del] ReadArrayReflect.simps [simp del]
  ReadSliceReflect.simps [simp del] ReadMapReflect.simps [simp del]
  ReadStructReflect.simps [simp del] ReadIndex_loop.simps [simp del]
  ReadMap_loop.simps [simp del] ReadStruct_loop.simps [simp del]

definition Read :: "(uint64 \<Rightarrow> uint64) \<Rightarrow> byte list \<Rightarrow> gtype \<Rightarrow> gval \<Rightarrow> rres" where
  "Read f32 r t val = ReadEntry (ReadReflect f32) r t val"

definition ReadBool :: "byte list \<Rightarrow> gtype \<Rightarrow> gval \<Rightarrow> rres" where
  "ReadBool r t b = ReadEntry ReadBoolReflect r t b"

definition ReadString :: "(uint64 \<Rightarrow> uint64) \<Rightarrow> byte list \<Rightarrow> gtype \<Rightarrow> gval \<Rightarrow> rres" where
  "ReadString f32 r t s = ReadEntry (ReadStringReflect f32) r t s"

definition ReadArray :: "(uint64 \<Rightarrow> uint64) \<Rightarrow> byte list \<Rightarrow> gtype \<Rightarrow> gval \<Rightarrow> rres" where
  "ReadArray f32 r t val = ReadEntry (ReadArrayReflect f32) r t val"

definition ReadSlice :: "(uint64 \<Rightarrow> uint64) \<Rightarrow> byte list \<Rightarrow> gtype \<Rightarrow> gval \<Rightarrow> rres" where
  "ReadSlice f32 r t val = ReadEntry (ReadSliceReflect f32) r t val"

definition ReadMap :: "(uint64 \<Rightarrow> uint64) \<Rightarrow> byte list \<Rightarrow> gtype \<Rightarrow> gval \<Rightarrow> rres" where
  "ReadMap f32 r t val = ReadEntry (ReadMapReflect f32) r t val"

definition ReadStruct :: "(uint64 \<Rightarrow> uint64) \<Rightarrow> byte list \<Rightarrow> gtype \<Rightarrow> gval \<Rightarrow> rres" where
  "ReadStruct f32 r t val = ReadEntry (ReadStructReflect f32) r t val"

definition ReadChan :: "byte list \<Rightarrow> gtype \<Rightarrow> gval \<Rightarrow> rres" where
  "ReadChan r t val = (None, val, r)"

section \<open>Notions used to state the properties\<close>

text \<open>
  A field takes part when it is exported and not named \<open>_\<close>. \<open>exported_fields\<close> are the
  fields of a struct that take part, with their values, in declaration order.
\<close>

definition takes_part :: "string \<Rightarrow> bool" where
  "takes_part fname \<longleftrightarrow> IsExported fname \<and> fname \<noteq> ''_''"

definition exported_fields :: "(string \<times> gtype) list \<Rightarrow> gval list \<Rightarrow> (gtype \<times> gval) list" where
  "exported_fields fs vs =
     map (\<lambda>fx. (snd (fst fx), snd fx))
       (filter (\<lambda>fx. takes_part (fst (fst fx))) (zip fs vs))"

text \<open>
  Writing a list of values one after the other with \<open>WriteReflect\<close>, and reading a list of
  destinations one after the other with \<open>ReadReflect\<close>, each stopping at the first error.
\<close>

fun WriteSeq :: "byte list \<Rightarrow> (gtype \<times> gval) list \<Rightarrow> wres" where
  "WriteSeq w [] = (None, w)"
| "WriteSeq w (tv # tvs) =
     (case WriteReflect w (fst tv) (snd tv) of
        (Some err, w') \<Rightarrow> (Some err, w')
      | (None, w') \<Rightarrow> WriteSeq w' tvs)"

fun ReadSeq ::
  "(uint64 \<Rightarrow> uint64) \<Rightarrow> byte list \<Rightarrow> (gtype \<times> gval) list
    \<Rightarrow> error option \<times> gval list \<times> byte list" where
  "ReadSeq f32 r [] = (None, [], r)"
| "ReadSeq f32 r (tv # tvs) =
     (case ReadReflect f32 r (fst tv) (snd tv) True of
        (Some err, x', r') \<Rightarrow> (Some err, x' # map snd tvs, r')
      | (None, x', r') \<Rightarrow>
          (case ReadSeq f32 r' tvs of (err, ys, r'') \<Rightarrow> (err, x' # ys, r'')))"

text \<open>
  Two values are the same Go value when they differ at most in the order in which the
  entries of maps are listed.
\<close>

inductive same_value :: "gval \<Rightarrow> gval \<Rightarrow> bool" where
  same_refl: "same_value v v"
| same_ptr: "same_value x y \<Longrightarrow> same_value (VPtr x) (VPtr y)"
| same_array: "list_all2 same_value xs ys \<Longrightarrow> same_value (VArray xs) (VArray ys)"
| same_slice: "list_all2 same_value xs ys \<Longrightarrow> same_value (VSlice xs) (VSlice ys)"
| same_struct: "list_all2 same_value xs ys \<Longrightarrow> same_value (VStruct xs) (VStruct ys)"
| same_map:
    "list_all2 (\<lambda>a b. same_value (fst a) (fst b) \<and> same_value (snd a) (snd b)) kvs kvs'
     \<Longrightarrow> mset kvs' = mset kvs'' \<Longrightarrow> same_value (VMap kvs) (VMap kvs'')"

text \<open>A value in which no map occurs.\<close>

fun no_maps :: "gval \<Rightarrow> bool" where
  "no_maps VNilMap = False"
| "no_maps (VMap kvs) = False"
| "no_maps (VArray xs) = list_all no_maps xs"
| "no_maps (VSlice xs) = list_all no_maps xs"
| "no_maps (VStruct xs) = list_all no_maps xs"
| "no_maps (VPtr x) = no_maps x"
| "no_maps v = True"

text \<open>
  The values for which writing and reading back is studied. \<open>supported f32 t v\<close> says that
  \<open>v\<close> is a value of type \<open>t\<close> (a number is one that a variable of that width holds), that
  \<open>t\<close> has an encoding wherever a field takes part, that no pointer that takes part is
  nil, that lengths fit Go's \<open>int\<close>, that field names are not empty, and that the keys of
  maps are booleans, integers or strings and pairwise different.
\<close>

definition key_type :: "gtype \<Rightarrow> bool" where
  "key_type t \<longleftrightarrow>
     t \<in> {TBool, TInt, TInt8, TInt16, TInt32, TInt64,
          TUint, TUint8, TUint16, TUint32, TUint64, TString}"

function supported :: "(uint64 \<Rightarrow> uint64) \<Rightarrow> gtype \<Rightarrow> gval \<Rightarrow> bool" where
  "supported f32 t v =
     (if t \<in> {TInt, TInt8, TInt16, TInt32, TInt64} then
        (case v of VInt x \<Rightarrow> SetInt t x = v | _ \<Rightarrow> False)
      else if t \<in> {TUint, TUint8, TUint16, TUint32, TUint64} then
        (case v of VUint x \<Rightarrow> SetUint t x = v | _ \<Rightarrow> False)
      else if t \<in> {TFloat32, TFloat64} then
        (case v of VFloat x \<Rightarrow> SetFloat f32 t x = v | _ \<Rightarrow> False)
      else if t \<in> {TComplex64, TComplex128} then
        (case v of VComplex re im \<Rightarrow> SetComplex f32 t re im = v | _ \<Rightarrow> False)
      else
        (case t of
           TBool \<Rightarrow> (case v of VBool b \<Rightarrow> True | _ \<Rightarrow> False)
         | TString \<Rightarrow> (case v of VString s \<Rightarrow> length s < 2 ^ 63 | _ \<Rightarrow> False)
         | TArray n te \<Rightarrow>
             (case v of
                VArray xs \<Rightarrow> length xs = n \<and> list_all (supported f32 te) xs
              | _ \<Rightarrow> False)
         | TSlice te \<Rightarrow>
             (case v of
                VSlice xs \<Rightarrow> length xs < 2 ^ 63 \<and> list_all (supported f32 te) xs
              | VNilSlice \<Rightarrow> True
              | _ \<Rightarrow> False)
         | TMap kt vt \<Rightarrow>
             (case v of
                VMap kvs \<Rightarrow>
                  length kvs < 2 ^ 63 \<and> key_type kt \<and> distinct (map fst kvs)
                  \<and> list_all (\<lambda>kv. supported f32 kt (fst kv) \<and> supported f32 vt (snd kv)) kvs
              | VNilMap \<Rightarrow> True
              | _ \<Rightarrow> False)
         | TStruct fs \<Rightarrow>
             (case v of
                VStruct vs \<Rightarrow>
                  length vs = length fs
                  \<and> list_all
                      (\<lambda>fx. fst (fst fx) \<noteq> []
                         \<and> (takes_part (fst (fst fx)) \<longrightarrow> supported f32 (snd (fst fx)) (snd fx)))
                      (zip fs vs)
              | _ \<Rightarrow> False)
         | TPtr te \<Rightarrow> (case v of VPtr x \<Rightarrow> supported f32 te x | _ \<Rightarrow> False)
         | _ \<Rightarrow> False))"
  by pat_completeness auto
termination
proof (relation "measure (\<lambda>(f32, t, v). size t)")
  have field_size: "size (snd f) < size (TStruct fs)" if "f \<in> set fs" for f fs
    using that by (induction fs) auto
  fix f32 :: "uint64 \<Rightarrow> uint64" and t v fs vs and fx :: "(string \<times> gtype) \<times> gval"
  assume t: "t = TStruct fs" and "fx \<in> set (zip fs vs)"
  then have "fst fx \<in> set fs"
    using set_zip_leftD [of "fst fx" "snd fx" fs vs] by simp
  then show "((f32, snd (fst fx), snd fx), (f32, t, v)) \<in> measure (\<lambda>(f32, t, v). size t)"
    using field_size [of "fst fx" fs] t by simp
qed auto

declare supported.simps [simp del]

text \<open>
  \<open>rebuilt t v\<close> is \<open>v\<close> as \<open>ReadReflect\<close> builds it anew from the bytes written for \<open>v\<close>: the
  fields that do not take part hold the zero value of their type, and a nil slice or
  nil map is an empty one. Everything else is as in \<open>v\<close>.
\<close>

function rebuilt :: "gtype \<Rightarrow> gval \<Rightarrow> gval" where
  "rebuilt t v =
     (case t of
        TPtr te \<Rightarrow> (case v of VPtr x \<Rightarrow> VPtr (rebuilt te x) | _ \<Rightarrow> v)
      | TArray n te \<Rightarrow> (case v of VArray xs \<Rightarrow> VArray (map (rebuilt te) xs) | _ \<Rightarrow> v)
      | TSlice te \<Rightarrow>
          (case v of
             VSlice xs \<Rightarrow> VSlice (map (rebuilt te) xs)
           | VNilSlice \<Rightarrow> VSlice []
           | _ \<Rightarrow> v)
      | TMap kt vt \<Rightarrow>
          (case v of
             VMap kvs \<Rightarrow> VMap (map (\<lambda>kv. (rebuilt kt (fst kv), rebuilt vt (snd kv))) kvs)
           | VNilMap \<Rightarrow> VMap []
           | _ \<Rightarrow> v)
      | TStruct fs \<Rightarrow>
          (case v of
             VStruct vs \<Rightarrow>
               VStruct
                 (map (\<lambda>fx. if takes_part (fst (fst fx)) then rebuilt (snd (fst fx)) (snd fx)
                             else Zero (snd (fst fx)))
                    (zip fs vs))
           | _ \<Rightarrow> v)
      | _ \<Rightarrow> v)"
  by pat_completeness auto
termination
proof (relation "measure (\<lambda>(t, v). size t)")
  have field_size: "size (snd f) < size (TStruct fs)" if "f \<in> set fs" for f fs
    using that by (induction fs) auto
  fix t v fs vs and fx :: "(string \<times> gtype) \<times> gval"
  assume t: "t = TStruct fs" and "fx \<in> set (zip fs vs)"
  then have "fst fx \<in> set fs"
    using set_zip_leftD [of "fst fx" "snd fx" fs vs] by simp
  then show "((snd (fst fx), snd fx), (t, v)) \<in> measure (\<lambda>(t, v). size t)"
    using field_size [of "fst fx" fs] t by simp
qed auto

declare rebuilt.simps [simp del]

text \<open>
  \<open>roundtrips f32 t v\<close>: writing \<open>v\<close> succeeds and appends bytes that do not depend on what
  was written before, and reading these bytes, whatever follows them and whatever the
  destination holds, succeeds, consumes exactly them and stores \<open>rebuilt t v\<close>.
\<close>

definition roundtrips :: "(uint64 \<Rightarrow> uint64) \<Rightarrow> gtype \<Rightarrow> gval \<Rightarrow> bool" where
  "roundtrips f32 t v \<longleftrightarrow>
     (\<exists>bs. (\<forall>w. WriteReflect w t v = (None, w @ bs))
        \<and> (\<forall>rest d. ReadReflect f32 (bs @ rest) t d True = (None, rebuilt t v, rest)))"

section \<open>Properties\<close>

subsection \<open>Booleans\<close>

lemma BufferRead_Cons1 [simp]: "BufferRead (b # r) (Suc 0) = (None, [b], r)"
  by (simp add: BufferRead_def)

lemma BufferRead_Nil1 [simp]: "BufferRead [] (Suc 0) = (Some EOF, [0], [])"
  by (simp add: BufferRead_def)

text \<open>
  Claim C3. Reading a boolean is strict: the byte \<open>0x00\<close> sets the destination to false,
  the byte \<open>0x01\<close> sets it to true, and every other byte fails with \<open>ErrUnexpected\<close> and
  leaves the destination as it was; one byte is consumed in each case. This holds for
  \<open>ReadBoolReflect\<close>, for \<open>ReadReflect\<close> on a boolean destination and for the entry point
  \<open>ReadBool\<close>.
\<close>

theorem C3_bool_strict:
  "ReadBoolReflect (b # r) TBool v True =
     (if b = 0 then (None, VBool False, r)
      else if b = 1 then (None, VBool True, r)
      else (Some ErrUnexpected, v, r))
   \<and> ReadReflect f32 (b # r) TBool v True =
     (if b = 0 then (None, VBool False, r)
      else if b = 1 then (None, VBool True, r)
      else (Some ErrUnexpected, v, r))
   \<and> ReadBool (b # r) (TPtr TBool) (VPtr v) =
     (if b = 0 then (None, VPtr (VBool False), r)
      else if b = 1 then (None, VPtr (VBool True), r)
      else (Some ErrUnexpected, VPtr v, r))"
  by (simp add: ReadBoolReflect_def ReadReflect.simps ReadBool_def ReadEntry_def)

text \<open>
  Claim C3 at the bytes \<open>0x02\<close>, \<open>0x01\<close> and \<open>0x00\<close>.
\<close>

theorem C3_bool_strict_witness:
  "ReadBoolReflect [2, 7] TBool (VBool True) True = (Some ErrUnexpected, VBool True, [7])
   \<and> ReadReflect id [1, 7] TBool (VBool False) True = (None, VBool True, [7])
   \<and> ReadBool [0] (TPtr TBool) (VPtr (VBool True)) = (None, VPtr (VBool False), [])"
  using C3_bool_strict [of 2 "[7]" "VBool True" id]
    C3_bool_strict [of 1 "[7]" "VBool False" id]
    C3_bool_strict [of 0 "[]" "VBool True" id]
  by simp

subsection \<open>Concrete wire bytes\<close>

text \<open>
  Claim C4 as stated fails for the string: the length prefix is written by
  \<open>WriteNumber(w, v.Len())\<close>, and \<open>v.Len()\<close> is a signed \<open>int\<close>, so the prefix is the zig-zag
  varint of the length. The string \<open>"ab"\<close> is not written as \<open>0x02 0x61 0x62\<close>, and these
  three bytes do not decode to \<open>"ab"\<close>.
\<close>

theorem C4_string_bytes_counterexample:
  "Write [] TString (VString ''ab'') \<noteq> (None, [0x02, 0x61, 0x62])
   \<and> Read id [0x02, 0x61, 0x62] (TPtr TString) (VPtr (VString []))
       \<noteq> (None, VPtr (VString ''ab''), [])"
  by code_simp

text \<open>
  Claim C4, amended. The 32-bit signed integer \<open>-1\<close> is written as the byte \<open>0x01\<close>, the
  unsigned integer \<open>300\<close> as \<open>0xAC 0x02\<close>, and the string \<open>"ab"\<close> as \<open>0x04 0x61 0x62\<close> (the
  zig-zag varint of the length 2, then the bytes); reading each of these byte sequences
  into a destination of the same type gives the value back and consumes all bytes.
\<close>

theorem C4_wire_bytes:
  "Write [] TInt32 (VInt (- 1)) = (None, [0x01])
   \<and> Write [] TUint (VUint 300) = (None, [0xAC, 0x02])
   \<and> Write [] TString (VString ''ab'') = (None, [0x04, 0x61, 0x62])
   \<and> Read id [0x01] (TPtr TInt32) (VPtr (VInt 0)) = (None, VPtr (VInt (- 1)), [])
   \<and> Read id [0xAC, 0x02] (TPtr TUint) (VPtr (VUint 0)) = (None, VPtr (VUint 300), [])
   \<and> Read id [0x04, 0x61, 0x62] (TPtr TString) (VPtr (VString []))
       = (None, VPtr (VString ''ab''), [])"
  by code_simp

subsection \<open>Negative counts\<close>

lemma ReadLen_eq:
  "ReadLen f32 r =
     (case ReadVarint r of (Some e, n, r') \<Rightarrow> (Some e, 0, r') | (None, n, r') \<Rightarrow> (None, n, r'))"
  by (simp add: ReadLen_def ReadNumber_def ReadEntry_def ReadNumberReflect_def SetInt_def
      split: prod.splits option.splits)

text \<open>
  Claim C6. When the varint prefix of a string, slice or map decodes to a negative number
  \<open>l\<close>, the reader fails with \<open>ErrUnexpected\<close>; the destination is as before and the
  stream stands right after the prefix, so no element was read. This holds for the three
  readers and for \<open>ReadReflect\<close> on a destination of these kinds.
\<close>

theorem C6_negative_count:
  assumes "ReadVarint r = (None, l, r')" and "l <s 0"
  shows "ReadStringReflect f32 r t v True = (Some ErrUnexpected, v, r')
    \<and> ReadSliceReflect f32 r t v True = (Some ErrUnexpected, v, r')
    \<and> ReadMapReflect f32 r t v True = (Some ErrUnexpected, v, r')
    \<and> ReadReflect f32 r TString v True = (Some ErrUnexpected, v, r')
    \<and> ReadReflect f32 r (TSlice te) v True = (Some ErrUnexpected, v, r')
    \<and> ReadReflect f32 r (TMap kt vt) v True = (Some ErrUnexpected, v, r')"
  using assms
  by (simp add: ReadStringReflect_def ReadSliceReflect.simps ReadMapReflect.simps
      ReadReflect.simps ReadLen_eq)

text \<open>
  Claim C6 at the stream \<open>0x01 0x09\<close>: the prefix \<open>0x01\<close> is the zig-zag varint of \<open>-1\<close>.
\<close>

theorem C6_negative_count_witness:
  "ReadVarint [1, 9] = (None, - 1, [9]) \<and> (- 1 :: int64) <s 0
   \<and> ReadStringReflect id [1, 9] TString (VString ''x'') True
       = (Some ErrUnexpected, VString ''x'', [9])
   \<and> ReadSliceReflect id [1, 9] (TSlice TBool) (VSlice [VBool True]) True
       = (Some ErrUnexpected, VSlice [VBool True], [9])
   \<and> ReadMapReflect id [1, 9] (TMap TString TInt) VNilMap True
       = (Some ErrUnexpected, VNilMap, [9])"
proof -
  have h1: "ReadVarint [1, 9] = (None, - 1, [9])" by code_simp
  have h2: "(- 1 :: int64) <s 0" by simp
  show ?thesis
    using h1 h2 C6_negative_count [OF h1 h2, of id TString "VString ''x''"]
      C6_negative_count [OF h1 h2, of id "TSlice TBool" "VSlice [VBool True]"]
      C6_negative_count [OF h1 h2, of id "TMap TString TInt" VNilMap]
    by simp
qed

subsection \<open>Unsupported kinds\<close>

text \<open>
  Claim C8. For a value of kind channel, function or unsafe pointer, \<open>Write\<close> (given the
  value or a pointer to it) and \<open>WriteReflect\<close> fail with \<open>ErrUnsupportedValue\<close> and write
  nothing; \<open>Read\<close> into a destination of such a kind and \<open>ReadReflect\<close> fail with
  \<open>ErrUnsupportedValue\<close>, consume nothing and leave the destination as it was.
\<close>

theorem C8_unsupported_kinds:
  assumes "t \<in> {TChan, TFunc, TUnsafePointer}"
  shows "Write w t v = (Some ErrUnsupportedValue, w)
    \<and> Write w (TPtr t) (VPtr v) = (Some ErrUnsupportedValue, w)
    \<and> WriteReflect w t v = (Some ErrUnsupportedValue, w)
    \<and> Read f32 r (TPtr t) (VPtr v) = (Some ErrUnsupportedValue, VPtr v, r)
    \<and> ReadReflect f32 r t v True = (Some ErrUnsupportedValue, v, r)"
  using assms
  by (auto simp add: Write_def Indirect_def WriteReflect.simps WriteNumberReflect_def
      Read_def ReadEntry_def ReadReflect.simps ReadNumberReflect_def)

text \<open>
  Claim C8 for a channel.
\<close>

theorem C8_unsupported_kinds_witness:
  "TChan \<in> {TChan, TFunc, TUnsafePointer}
   \<and> Write [5] TChan VOpaque = (Some ErrUnsupportedValue, [5])
   \<and> Read id [1, 2] (TPtr TChan) (VPtr VOpaque) = (Some ErrUnsupportedValue, VPtr VOpaque, [1, 2])"
proof -
  have h: "TChan \<in> {TChan, TFunc, TUnsafePointer}" by simp
  show ?thesis
    using h C8_unsupported_kinds [OF h, of "[5]" VOpaque id "[1, 2]"] by simp
qed

text \<open>
  The stubs \<open>WriteChan\<close> and \<open>ReadChan\<close>, which are not reached from \<open>Write\<close> and \<open>Read\<close>,
  return no error and do nothing.
\<close>

lemma WriteChan_ReadChan_stubs:
  "WriteChan w t v = (None, w) \<and> ReadChan r t v = (None, v, r)"
  by (simp add: WriteChan_def ReadChan_def)

subsection \<open>A failed read leaves the destination alone\<close>

lemma ReadReflect_error_keeps:
  "ReadReflect f32 r t v a = (Some err, v', r') \<Longrightarrow> v' = v"
  by (cases a) (auto simp add: ReadReflect.simps Let_def split: prod.splits option.splits)

text \<open>
  Claim C10. \<open>ReadReflect\<close> reads into a temporary and assigns it to the destination only
  when the read has succeeded: when \<open>ReadReflect\<close> returns an error the destination holds
  the value it held before, and so does what the argument of a failed \<open>Read\<close> points to.
\<close>

theorem C10_read_atomic:
  "(\<forall>err v' r'. ReadReflect f32 r t v a = (Some err, v', r') \<longrightarrow> v' = v)
   \<and> (\<forall>err val' r'. Read f32 r t val = (Some err, val', r') \<longrightarrow> val' = val)"
proof (intro conjI allI impI)
  fix err v' r'
  assume "ReadReflect f32 r t v a = (Some err, v', r')"
  then show "v' = v" by (rule ReadReflect_error_keeps)
next
  fix err val' r'
  assume h: "Read f32 r t val = (Some err, val', r')"
  show "val' = val"
  proof (cases "\<exists>te x. t = TPtr te \<and> val = VPtr x")
    case True
    then obtain te x where tv: "t = TPtr te" "val = VPtr x" by blast
    obtain e x' r'' where rr: "ReadReflect f32 r te x True = (e, x', r'')"
      by (cases "ReadReflect f32 r te x True") auto
    with h tv have "e = Some err" "val' = VPtr x'"
      by (simp_all add: Read_def ReadEntry_def)
    with rr tv show ?thesis
      using ReadReflect_error_keeps [of f32 r te x True err x' r''] by simp
  next
    case False
    with h show ?thesis
      by (auto simp add: Read_def ReadEntry_def split: gtype.splits gval.splits prod.splits)
  qed
qed

text \<open>
  Claim C10 at a stream that ends inside a struct: the first field is read, the second
  meets the end of the stream, and the destination of \<open>Read\<close> is as before.
\<close>

theorem C10_read_atomic_witness:
  "ReadReflect id [2] TBool (VBool True) True = (Some ErrUnexpected, VBool True, [])
   \<and> Read id [4, 0x61, 0x62] (TPtr (TStruct [(''A'', TString), (''B'', TInt)]))
         (VPtr (VStruct [VString ''x'', VInt 5]))
       = (Some EOF, VPtr (VStruct [VString ''x'', VInt 5]), [])"
proof -
  have a: "ReadReflect id [2] TBool (VBool True) True = (Some ErrUnexpected, VBool True, [])"
    by code_simp
  have b: "Read id [4, 0x61, 0x62] (TPtr (TStruct [(''A'', TString), (''B'', TInt)]))
         (VPtr (VStruct [VString ''x'', VInt 5]))
       = (Some EOF, VPtr (VStruct [VString ''x'', VInt 5]), [])"
    by code_simp
  from a b C10_read_atomic [of id "[2]" TBool "VBool True" True]
    C10_read_atomic [of id "[4, 0x61, 0x62]" "TPtr (TStruct [(''A'', TString), (''B'', TInt)])"
      _ _ "VPtr (VStruct [VString ''x'', VInt 5])"]
  show ?thesis by simp
qed

text \<open>
  \<open>ReadStruct\<close> reads the fields in place: on the same stream it fails with the first field
  already replaced.
\<close>

lemma ReadStruct_not_atomic:
  "ReadStruct id [4, 0x61, 0x62] (TPtr (TStruct [(''A'', TString), (''B'', TInt)]))
       (VPtr (VStruct [VString ''x'', VInt 5]))
     = (Some EOF, VPtr (VStruct [VString ''ab'', VInt 5]), [])"
  by code_simp

subsection \<open>Floats and complex numbers\<close>

lemma upt8: "[0..<8] = [0, 1, 2, 3, 4, 5, 6, 7]"
  by (simp add: upt_rec)

lemma length_le_bytes [simp]: "length (le_bytes x) = 8"
  by (simp add: le_bytes_def)

lemma byte_split: "ucast (ucast x :: byte) OR push_bit 8 (drop_bit 8 x) = (x :: uint64)"
proof (rule bit_word_eqI)
  fix n assume "n < LENGTH(64)"
  then show "bit (ucast (ucast x :: byte) OR push_bit 8 (drop_bit 8 x)) n = bit x n"
    by (cases "n < 8") (auto simp add: bit_simps)
qed

lemma byte_last: "drop_bit 8 x = 0 \<Longrightarrow> ucast (ucast x :: byte) = (x :: uint64)"
  using byte_split [of x] by simp

lemma le_uint64_le_bytes [simp]: "le_uint64 (le_bytes x) = x"
proof -
  have 7: "ucast (ucast (drop_bit 56 x) :: byte) = drop_bit 56 x"
    by (rule byte_last) simp
  have s: "\<And>n. ucast (ucast (drop_bit n x) :: byte) OR push_bit 8 (drop_bit (8 + n) x)
      = drop_bit n x"
    using byte_split [of "drop_bit n x" for n] by simp
  show ?thesis
    unfolding le_bytes_def upt8
    using s [of 0] s [of 8] s [of 16] s [of 24] s [of 32] s [of 40] s [of 48] 7
    by simp
qed

lemma le_bytes_little_endian:
  "le_bytes x = [ucast x, ucast (drop_bit 8 x), ucast (drop_bit 16 x), ucast (drop_bit 24 x),
     ucast (drop_bit 32 x), ucast (drop_bit 40 x), ucast (drop_bit 48 x), ucast (drop_bit 56 x)]"
  by (simp add: le_bytes_def upt8)

lemma ReadFull_le_bytes [simp]: "ReadFull (le_bytes x @ rest) 8 = (None, le_bytes x, rest)"
  by (simp add: ReadFull_def)

lemma ReadFull_le_bytes2 [simp]:
  "ReadFull (le_bytes re @ le_bytes im @ rest) 16 = (None, le_bytes re @ le_bytes im, rest)"
  by (simp add: ReadFull_def)

text \<open>
  Claim C7. A float of either width is written as exactly 8 bytes, the little-endian
  bytes of the bit pattern of the value as a \<open>float64\<close> (which is what \<open>VFloat\<close> holds); a
  complex number of either width as exactly 16 bytes, the real part and then the
  imaginary part in the same way. The declared width does not enter the bytes. Reading
  the bytes back gives the 64-bit pattern, narrowed by \<open>f32\<close> when the destination is a
  \<open>float32\<close> or a \<open>complex64\<close>.
\<close>

theorem C7_float_bytes:
  "(t \<in> {TFloat32, TFloat64} \<longrightarrow>
      WriteReflect w t (VFloat x) = (None, w @ le_bytes x)
      \<and> length (le_bytes x) = 8
      \<and> ReadReflect f32 (le_bytes x @ rest) t v True
          = (None, if t = TFloat32 then VFloat (f32 x) else VFloat x, rest))
   \<and> (t \<in> {TComplex64, TComplex128} \<longrightarrow>
      WriteReflect w t (VComplex re im) = (None, w @ le_bytes re @ le_bytes im)
      \<and> length (le_bytes re @ le_bytes im) = 16
      \<and> ReadReflect f32 (le_bytes re @ le_bytes im @ rest) t v True
          = (None, if t = TComplex64 then VComplex (f32 re) (f32 im) else VComplex re im, rest))"
proof -
  have f: "t \<in> {TFloat32, TFloat64} \<Longrightarrow>
      WriteReflect w t (VFloat x) = (None, w @ le_bytes x)
      \<and> ReadReflect f32 (le_bytes x @ rest) t v True
          = (None, if t = TFloat32 then VFloat (f32 x) else VFloat x, rest)"
    by (auto simp add: WriteReflect.simps WriteNumberReflect_def ReadReflect.simps
        ReadNumberReflect_def SetFloat_def)
  have c: "t \<in> {TComplex64, TComplex128} \<Longrightarrow>
      WriteReflect w t (VComplex re im) = (None, w @ le_bytes re @ le_bytes im)
      \<and> ReadReflect f32 (le_bytes re @ le_bytes im @ rest) t v True
          = (None, if t = TComplex64 then VComplex (f32 re) (f32 im) else VComplex re im, rest)"
    by (auto simp add: WriteReflect.simps WriteNumberReflect_def ReadReflect.simps
        ReadNumberReflect_def SetComplex_def)
  from f c show ?thesis by simp
qed

text \<open>
  Claim C7 at the value 1.5 (bit pattern \<open>0x3FF8000000000000\<close>), with a narrowing that
  clears the 29 low bits a \<open>float32\<close> cannot hold.
\<close>

theorem C7_float_bytes_witness:
  "WriteReflect [] TFloat32 (VFloat 0x3FF8000000000000) = (None, [0, 0, 0, 0, 0, 0, 0xF8, 0x3F])
   \<and> WriteReflect [] TFloat64 (VFloat 0x3FF8000000000000) = (None, [0, 0, 0, 0, 0, 0, 0xF8, 0x3F])
   \<and> ReadReflect (\<lambda>b. b AND 0xFFFFFFFFE0000000) [0, 0, 0, 0, 0, 0, 0xF8, 0x3F, 9] TFloat32
         (VFloat 0) True
       = (None, VFloat 0x3FF8000000000000, [9])
   \<and> WriteReflect [] TComplex64 (VComplex 0x3FF8000000000000 0)
       = (None, [0, 0, 0, 0, 0, 0, 0xF8, 0x3F, 0, 0, 0, 0, 0, 0, 0, 0])"
proof -
  have b: "le_bytes 0x3FF8000000000000 = [0, 0, 0, 0, 0, 0, 0xF8, 0x3F]" by code_simp
  have z: "le_bytes 0 = [0, 0, 0, 0, 0, 0, 0, 0]" by code_simp
  have m: "(0x3FF8000000000000 :: uint64) AND 0xFFFFFFFFE0000000 = 0x3FF8000000000000" by simp
  show ?thesis
    using C7_float_bytes [of TFloat32 "[]" "0x3FF8000000000000"
        "\<lambda>b. b AND 0xFFFFFFFFE0000000" "[9]" "VFloat 0"]
      C7_float_bytes [of TFloat64 "[]" "0x3FF8000000000000"]
      C7_float_bytes [of TComplex64 "[]" _ _ _ _ "0x3FF8000000000000" 0]
    by (simp add: b z m)
qed

subsection \<open>Nil pointers\<close>

lemma PutVarint_0 [simp]: "PutVarint 0 = [0]"
  by (simp add: PutVarint_def zigzag_def PutUvarint.simps)

lemma WriteNumber_TInt [simp]: "WriteNumber w TInt (VInt x) = (None, w @ PutVarint x)"
  by (simp add: WriteNumber_def Indirect_def WriteNumberReflect_def)

text \<open>
  The writing half of claim C2 holds: a nil pointer is written as the single byte \<open>0x00\<close>,
  whatever it points to, and a pointer is written as its pointee, so the same holds for
  a nil pointer at any depth.
\<close>

lemma WriteReflect_nil_pointer:
  "WriteReflect w (TPtr te) VNilPtr = (None, w @ [0x00])
   \<and> WriteReflect w (TPtr te) (VPtr x) = WriteReflect w te x
   \<and> Write w (TPtr te) VNilPtr = (None, w @ [0x00])"
  by (simp add: WriteReflect.simps Write_def Indirect_def)

text \<open>
  The reading half holds for a pointer to a boolean, an integer or a string.
\<close>

lemma ReadReflect_zero_byte_scalars:
  "ReadReflect f32 (0x00 # r) (TPtr TBool) v True = (None, VPtr (VBool False), r)
   \<and> ReadReflect f32 (0x00 # r) (TPtr TInt) v True = (None, VPtr (VInt 0), r)
   \<and> ReadReflect f32 (0x00 # r) (TPtr TUint8) v True = (None, VPtr (VUint 0), r)
   \<and> ReadReflect f32 (0x00 # r) (TPtr TString) v True = (None, VPtr (VString []), r)"
  by (simp add: ReadReflect.simps ReadBoolReflect_def ReadNumberReflect_def ReadStringReflect_def
      ReadLen_eq ReadVarint_def ReadUvarint_def ReadUvarint_loop.simps ReadByte_def
      MaxVarintLen64_def unzigzag_def SetInt_def SetUint_def)

text \<open>
  Claim C2 fails on the code for other pointees. A nil pointer to a \<open>float64\<close> is written
  as the byte \<open>0x00\<close>, and reading that byte into a pointer to a \<open>float64\<close> fails with
  \<open>io.ErrUnexpectedEOF\<close>, since a float is read as eight bytes; the destination stays nil.
  A nil pointer to a struct of two integers is written as \<open>0x00\<close> too, and reading it back
  fails with \<open>io.EOF\<close> at the second field.
\<close>

theorem C2_nil_pointer_decode:
  "Write [] (TPtr TFloat64) VNilPtr = (None, [0x00])
   \<and> Read id [0x00] (TPtr (TPtr TFloat64)) (VPtr VNilPtr)
       = (Some ErrUnexpectedEOF, VPtr VNilPtr, [])
   \<and> Write [] (TPtr (TStruct [(''A'', TInt), (''B'', TInt)])) VNilPtr = (None, [0x00])
   \<and> Read id [0x00] (TPtr (TPtr (TStruct [(''A'', TInt), (''B'', TInt)]))) (VPtr VNilPtr)
       = (Some EOF, VPtr VNilPtr, [])"
  by code_simp

subsection \<open>Struct fields\<close>

lemma lower_char_fix: "lower_char c = c \<longleftrightarrow> \<not> (65 \<le> (of_char c :: nat) \<and> (of_char c :: nat) \<le> 90)"
proof (cases "65 \<le> (of_char c :: nat) \<and> (of_char c :: nat) \<le> 90")
  case True
  have "char_of (of_char c + 32 :: nat) \<noteq> c"
  proof
    assume "char_of (of_char c + 32 :: nat) = c"
    then have "(of_char (char_of (of_char c + 32 :: nat)) :: nat) = of_char c" by simp
    with True show False by (simp only: of_char_of) simp
  qed
  with True show ?thesis by (simp add: lower_char_def Let_def)
next
  case False
  then show ?thesis by (auto simp add: lower_char_def Let_def)
qed

lemma skip_iff: "fname \<noteq> [] \<Longrightarrow> hd fname = hd (ToLower fname) \<longleftrightarrow> \<not> IsExported fname"
  using lower_char_fix [of "hd fname"]
  by (cases fname) (auto simp add: ToLower_def IsExported_def)

lemma not_exported_underscore [simp]: "\<not> IsExported ''_''"
  by (simp add: IsExported_def)

lemma takes_part_iff: "takes_part fname \<longleftrightarrow> IsExported fname"
  by (auto simp add: takes_part_def)

lemma WriteStruct_loop_Nil [simp]: "WriteStruct_loop w (TStruct []) vs = (None, w)"
  by (simp add: WriteStruct_loop.simps)

lemma WriteStruct_loop_Cons:
  "fname \<noteq> [] \<Longrightarrow> WriteStruct_loop w (TStruct ((fname, ft) # fs)) (x # vs) =
     (if takes_part fname then
        (case WriteReflect w ft x of
           (Some err, w') \<Rightarrow> (Some err, w')
         | (None, w') \<Rightarrow> WriteStruct_loop w' (TStruct fs) vs)
      else WriteStruct_loop w (TStruct fs) vs)"
  by (auto simp add: WriteStruct_loop.simps [of w "TStruct ((fname, ft) # fs)"] skip_iff
      takes_part_iff)

lemma exported_fields_Nil [simp]: "exported_fields [] vs = []"
  by (simp add: exported_fields_def)

lemma exported_fields_Cons [simp]:
  "exported_fields ((fname, ft) # fs) (x # vs) =
     (if takes_part fname then (ft, x) # exported_fields fs vs else exported_fields fs vs)"
  by (simp add: exported_fields_def)

lemma WriteStruct_loop_seq:
  "length vs = length fs \<Longrightarrow> \<forall>f \<in> set fs. fst f \<noteq> [] \<Longrightarrow>
   WriteStruct_loop w (TStruct fs) vs = WriteSeq w (exported_fields fs vs)"
proof (induction fs arbitrary: vs w)
  case Nil
  then show ?case by simp
next
  case (Cons f fs)
  obtain fname ft where f: "f = (fname, ft)" by (cases f)
  from Cons.prems obtain x vs' where vs: "vs = x # vs'" by (cases vs) auto
  with Cons f show ?case
    by (simp add: WriteStruct_loop_Cons split: prod.splits option.splits)
qed

lemma ReadStruct_loop_Nil [simp]: "ReadStruct_loop f32 r (TStruct []) vs = (None, vs, r)"
  by (simp add: ReadStruct_loop.simps)

lemma ReadStruct_loop_Cons:
  "fname \<noteq> [] \<Longrightarrow> ReadStruct_loop f32 r (TStruct ((fname, ft) # fs)) (x # vs) =
     (if takes_part fname then
        (case ReadReflect f32 r ft x True of
           (Some err, x', r') \<Rightarrow> (Some err, x' # vs, r')
         | (None, x', r') \<Rightarrow>
             (case ReadStruct_loop f32 r' (TStruct fs) vs of
                (err, ys, r'') \<Rightarrow> (err, x' # ys, r'')))
      else
        (case ReadStruct_loop f32 r (TStruct fs) vs of (err, ys, r') \<Rightarrow> (err, x # ys, r')))"
  by (auto simp add: ReadStruct_loop.simps [of f32 r "TStruct ((fname, ft) # fs)"] skip_iff
      CanSet_def takes_part_iff)

lemma ReadStruct_loop_seq:
  "length vs = length fs \<Longrightarrow> \<forall>f \<in> set fs. fst f \<noteq> [] \<Longrightarrow>
   \<exists>err vs' r'. ReadStruct_loop f32 r (TStruct fs) vs = (err, vs', r')
     \<and> length vs' = length vs
     \<and> ReadSeq f32 r (exported_fields fs vs) = (err, map snd (exported_fields fs vs'), r')
     \<and> (\<forall>i < length fs. \<not> takes_part (fst (fs ! i)) \<longrightarrow> vs' ! i = vs ! i)"
proof (induction fs arbitrary: vs r)
  case Nil
  then show ?case by simp
next
  case (Cons f fs)
  obtain fname ft where f: "f = (fname, ft)" by (cases f)
  from Cons.prems obtain x vs0 where vs: "vs = x # vs0" by (cases vs) auto
  from Cons.prems vs f have len: "length vs0 = length fs" and ne: "\<forall>f \<in> set fs. fst f \<noteq> []"
    and nef: "fname \<noteq> []" by auto
  show ?case
  proof (cases "takes_part fname")
    case False
    from Cons.IH [OF len ne, of r] obtain err ys r' where
      l: "ReadStruct_loop f32 r (TStruct fs) vs0 = (err, ys, r')" and ly: "length ys = length vs0"
      and s: "ReadSeq f32 r (exported_fields fs vs0) = (err, map snd (exported_fields fs ys), r')"
      and u: "\<forall>i < length fs. \<not> takes_part (fst (fs ! i)) \<longrightarrow> ys ! i = vs0 ! i"
      by blast
    have "\<forall>i < length (f # fs). \<not> takes_part (fst ((f # fs) ! i)) \<longrightarrow> (x # ys) ! i = (x # vs0) ! i"
      using u by (auto simp add: nth_Cons split: nat.splits)
    with False l ly s nef vs f show ?thesis
      by (simp add: ReadStruct_loop_Cons)
  next
    case True
    obtain e x' r1 where rr: "ReadReflect f32 r ft x True = (e, x', r1)"
      by (cases "ReadReflect f32 r ft x True") auto
    show ?thesis
    proof (cases e)
      case (Some err)
      have "\<forall>i < length (f # fs). \<not> takes_part (fst ((f # fs) ! i)) \<longrightarrow> (x' # vs0) ! i = (x # vs0) ! i"
        using True f by (auto simp add: nth_Cons split: nat.splits)
      with True Some rr nef vs f len show ?thesis
        by (simp add: ReadStruct_loop_Cons)
    next
      case None
      from Cons.IH [OF len ne, of r1] obtain err ys r' where
        l: "ReadStruct_loop f32 r1 (TStruct fs) vs0 = (err, ys, r')" and ly: "length ys = length vs0"
        and s: "ReadSeq f32 r1 (exported_fields fs vs0) = (err, map snd (exported_fields fs ys), r')"
        and u: "\<forall>i < length fs. \<not> takes_part (fst (fs ! i)) \<longrightarrow> ys ! i = vs0 ! i"
        by blast
      have "\<forall>i < length (f # fs). \<not> takes_part (fst ((f # fs) ! i)) \<longrightarrow> (x' # ys) ! i = (x # vs0) ! i"
        using u True f by (auto simp add: nth_Cons split: nat.splits)
      with True None rr l ly s nef vs f show ?thesis
        by (simp add: ReadStruct_loop_Cons)
    qed
  qed
qed


lemma exported_fields_agree:
  "length us = length fs \<Longrightarrow> length vs = length fs \<Longrightarrow>
   \<forall>i < length fs. takes_part (fst (fs ! i)) \<longrightarrow> us ! i = vs ! i \<Longrightarrow>
   exported_fields fs us = exported_fields fs vs"
proof (induction fs arbitrary: us vs)
  case Nil
  then show ?case by simp
next
  case (Cons f fs)
  obtain fname ft where f: "f = (fname, ft)" by (cases f)
  from Cons.prems obtain u us' v vs' where uv: "us = u # us'" "vs = v # vs'"
    by (cases us; cases vs) auto
  have tl: "\<forall>i < length fs. takes_part (fst (fs ! i)) \<longrightarrow> us' ! i = vs' ! i"
  proof (intro allI impI)
    fix i assume "i < length fs" "takes_part (fst (fs ! i))"
    with Cons.prems(3) [rule_format, of "Suc i"] uv show "us' ! i = vs' ! i" by simp
  qed
  have hd: "takes_part fname \<longrightarrow> u = v"
    using Cons.prems(3) [rule_format, of 0] uv f by simp
  from Cons.prems uv have "length us' = length fs" "length vs' = length fs" by simp_all
  with Cons.IH tl have "exported_fields fs us' = exported_fields fs vs'" by blast
  with hd show ?case using uv f by simp
qed

text \<open>
  Claim C5 as stated fails in its last part. \<open>ReadReflect\<close> builds every value in a fresh
  zero value and assigns that to the destination, so a struct that is decoded through
  \<open>ReadReflect\<close> loses what its unexported fields held: with \<open>ReadStruct\<close>, the unexported
  field \<open>b\<close> of the struct in the exported field \<open>In\<close> goes from 7 to 0, and with \<open>Read\<close>
  the unexported field \<open>b\<close> of the destination itself does.
\<close>

theorem C5_unexported_changed_counterexample:
  "ReadStruct id [0x02] (TPtr (TStruct [(''In'', TStruct [(''A'', TInt), (''b'', TInt)])]))
       (VPtr (VStruct [VStruct [VInt 0, VInt 7]]))
     = (None, VPtr (VStruct [VStruct [VInt 1, VInt 0]]), [])
   \<and> Read id [0x02] (TPtr (TStruct [(''A'', TInt), (''b'', TInt)])) (VPtr (VStruct [VInt 0, VInt 7]))
     = (None, VPtr (VStruct [VInt 1, VInt 0]), [])
   \<and> VInt 0 \<noteq> VInt 7"
  by code_simp

text \<open>
  Claim C5, amended. For a struct (with as many values as fields, and field names that
  are not empty): \<open>WriteStructReflect\<close> and \<open>WriteStruct\<close> write exactly the fields that
  are exported and not named \<open>_\<close>, in declaration order, each with \<open>WriteReflect\<close>; the
  bytes do not depend on the values of the other fields. \<open>ReadStructReflect\<close> and
  \<open>ReadStruct\<close> read exactly those fields, in the same order, each with \<open>ReadReflect\<close>,
  and leave the other fields of the struct they are given as they were. When the struct
  is decoded by \<open>ReadReflect\<close> instead, the other fields hold the zero value of their type
  afterwards.
\<close>

theorem C5_export_filter:
  assumes "length vs = length fs" and "\<forall>f \<in> set fs. fst f \<noteq> []"
  shows "WriteStructReflect w (TStruct fs) (VStruct vs) = WriteSeq w (exported_fields fs vs)
    \<and> WriteStruct w (TStruct fs) (VStruct vs) = WriteSeq w (exported_fields fs vs)
    \<and> (\<forall>us. length us = length fs
          \<and> (\<forall>i < length fs. takes_part (fst (fs ! i)) \<longrightarrow> us ! i = vs ! i)
          \<longrightarrow> WriteStructReflect w (TStruct fs) (VStruct us)
              = WriteStructReflect w (TStruct fs) (VStruct vs))
    \<and> (\<exists>err vs' r'.
          ReadStructReflect f32 r (TStruct fs) (VStruct vs) True = (err, VStruct vs', r')
          \<and> ReadStruct f32 r (TPtr (TStruct fs)) (VPtr (VStruct vs)) = (err, VPtr (VStruct vs'), r')
          \<and> length vs' = length vs
          \<and> ReadSeq f32 r (exported_fields fs vs) = (err, map snd (exported_fields fs vs'), r')
          \<and> (\<forall>i < length fs. \<not> takes_part (fst (fs ! i)) \<longrightarrow> vs' ! i = vs ! i))
    \<and> (\<forall>vs' r'. ReadReflect f32 r (TStruct fs) (VStruct vs) True = (None, VStruct vs', r')
          \<longrightarrow> (\<forall>i < length fs. \<not> takes_part (fst (fs ! i)) \<longrightarrow> vs' ! i = Zero (snd (fs ! i))))"
proof -
  have w1: "WriteStructReflect w (TStruct fs) (VStruct us) = WriteSeq w (exported_fields fs us)"
    if "length us = length fs" for us
    using that assms(2) by (simp add: WriteStructReflect.simps WriteStruct_loop_seq)
  have w2: "WriteStruct w (TStruct fs) (VStruct vs) = WriteSeq w (exported_fields fs vs)"
    using w1 [OF assms(1)] by (simp add: WriteStruct_def Indirect_def)
  have w3: "\<forall>us. length us = length fs
          \<and> (\<forall>i < length fs. takes_part (fst (fs ! i)) \<longrightarrow> us ! i = vs ! i)
          \<longrightarrow> WriteStructReflect w (TStruct fs) (VStruct us)
              = WriteStructReflect w (TStruct fs) (VStruct vs)"
  proof (intro allI impI)
    fix us
    assume h: "length us = length fs
          \<and> (\<forall>i < length fs. takes_part (fst (fs ! i)) \<longrightarrow> us ! i = vs ! i)"
    then have "exported_fields fs us = exported_fields fs vs"
      using exported_fields_agree [of us fs vs] assms(1) by blast
    with h show "WriteStructReflect w (TStruct fs) (VStruct us)
              = WriteStructReflect w (TStruct fs) (VStruct vs)"
      using w1 [of us] w1 [OF assms(1)] by simp
  qed
  from ReadStruct_loop_seq [OF assms, of f32 r] obtain err vs' r' where
    l: "ReadStruct_loop f32 r (TStruct fs) vs = (err, vs', r')" and ly: "length vs' = length vs"
    and s: "ReadSeq f32 r (exported_fields fs vs) = (err, map snd (exported_fields fs vs'), r')"
    and u: "\<forall>i < length fs. \<not> takes_part (fst (fs ! i)) \<longrightarrow> vs' ! i = vs ! i"
    by blast
  have r1: "ReadStructReflect f32 r (TStruct fs) (VStruct vs) True = (err, VStruct vs', r')"
    using l by (simp add: ReadStructReflect.simps)
  then have r2: "ReadStruct f32 r (TPtr (TStruct fs)) (VPtr (VStruct vs)) = (err, VPtr (VStruct vs'), r')"
    by (simp add: ReadStruct_def ReadEntry_def)
  have r3: "\<forall>vs' r'. ReadReflect f32 r (TStruct fs) (VStruct vs) True = (None, VStruct vs', r')
          \<longrightarrow> (\<forall>i < length fs. \<not> takes_part (fst (fs ! i)) \<longrightarrow> vs' ! i = Zero (snd (fs ! i)))"
  proof (intro allI impI)
    fix ys r'' i
    assume rr: "ReadReflect f32 r (TStruct fs) (VStruct vs) True = (None, VStruct ys, r'')"
      and i: "i < length fs" and np: "\<not> takes_part (fst (fs ! i))"
    let ?zs = "map (\<lambda>f. Zero (snd f)) fs"
    have lz: "length ?zs = length fs" by simp
    from ReadStruct_loop_seq [OF lz assms(2), of f32 r] obtain e zs' r1 where
      lz': "ReadStruct_loop f32 r (TStruct fs) ?zs = (e, zs', r1)"
      and uz: "\<forall>i < length fs. \<not> takes_part (fst (fs ! i)) \<longrightarrow> zs' ! i = ?zs ! i"
      by blast
    from rr lz' have "ys = zs'"
      by (simp add: ReadReflect.simps ReadStructReflect.simps split: option.splits)
    with uz i np show "ys ! i = Zero (snd (fs ! i))" by simp
  qed
  have r4: "\<exists>err vs' r'.
          ReadStructReflect f32 r (TStruct fs) (VStruct vs) True = (err, VStruct vs', r')
          \<and> ReadStruct f32 r (TPtr (TStruct fs)) (VPtr (VStruct vs)) = (err, VPtr (VStruct vs'), r')
          \<and> length vs' = length vs
          \<and> ReadSeq f32 r (exported_fields fs vs) = (err, map snd (exported_fields fs vs'), r')
          \<and> (\<forall>i < length fs. \<not> takes_part (fst (fs ! i)) \<longrightarrow> vs' ! i = vs ! i)"
    using r1 r2 ly s u by (intro exI conjI)
  show ?thesis
    using w1 [OF assms(1)] w2 w3 r4 r3 by (intro conjI)
qed

text \<open>
  Claim C5 (amended) at a struct with the fields \<open>A\<close>, \<open>b\<close> and \<open>_\<close>: only \<open>A\<close> is written,
  whatever the other two hold.
\<close>

theorem C5_export_filter_witness:
  "WriteStructReflect [] (TStruct [(''A'', TInt), (''b'', TInt), (''_'', TBool)])
       (VStruct [VInt 1, VInt 7, VBool True]) = (None, [2])
   \<and> WriteStructReflect [] (TStruct [(''A'', TInt), (''b'', TInt), (''_'', TBool)])
       (VStruct [VInt 1, VInt 9, VBool False]) = (None, [2])"
proof -
  let ?fs = "[(''A'', TInt), (''b'', TInt), (''_'', TBool)]"
  let ?vs = "[VInt 1, VInt 7, VBool True]"
  let ?us = "[VInt 1, VInt 9, VBool False]"
  have h1: "length ?vs = length ?fs" by simp
  have h2: "\<forall>f \<in> set ?fs. fst f \<noteq> []" by simp
  have e: "WriteSeq [] (exported_fields ?fs ?vs) = (None, [2])" by code_simp
  have a: "\<forall>i < length ?fs. takes_part (fst (?fs ! i)) \<longrightarrow> ?us ! i = ?vs ! i"
    by (simp add: nth_Cons takes_part_def IsExported_def split: nat.splits)
  note c = C5_export_filter [OF h1 h2, of "[]" id "[]"]
  from c [THEN conjunct1] e
  have w: "WriteStructReflect [] (TStruct ?fs) (VStruct ?vs) = (None, [2])" by simp
  from c [THEN conjunct2, THEN conjunct2, THEN conjunct1, rule_format, of ?us] a w
  have "WriteStructReflect [] (TStruct ?fs) (VStruct ?us) = (None, [2])" by simp
  with w show ?thesis by (intro conjI)
qed

subsection \<open>Determinism\<close>

lemma list_all2_same:
  "list_all2 (\<lambda>x y. P x y \<and> (Q x \<longrightarrow> y = x)) xs ys \<Longrightarrow> list_all Q xs \<Longrightarrow> ys = xs"
  by (induction rule: list_all2_induct) auto

lemma same_value_no_maps: "same_value v v' \<Longrightarrow> no_maps v \<Longrightarrow> v' = v"
proof (induction rule: same_value.induct)
  case (same_refl v)
  then show ?case by simp
next
  case (same_ptr x y)
  then show ?case by simp
next
  case (same_array xs ys)
  then show ?case using list_all2_same [of same_value no_maps xs ys] by simp
next
  case (same_slice xs ys)
  then show ?case using list_all2_same [of same_value no_maps xs ys] by simp
next
  case (same_struct xs ys)
  then show ?case using list_all2_same [of same_value no_maps xs ys] by simp
next
  case (same_map kvs kvs' kvs'')
  then show ?case by simp
qed

text \<open>
  Claim C9. Writing is deterministic for every value in which no map occurs: two calls of
  \<open>Write\<close> (or \<open>WriteReflect\<close>) on the same value, which such a value can show in one way
  only, produce the same result, bytes and error.
\<close>

theorem C9_deterministic:
  assumes "same_value v v'" and "no_maps v"
  shows "Write w t v' = Write w t v \<and> WriteReflect w t v' = WriteReflect w t v"
  using same_value_no_maps [OF assms] by simp

text \<open>
  Claim C9 at a struct with an integer and a slice of strings.
\<close>

theorem C9_deterministic_witness:
  "Write [] (TStruct [(''A'', TInt), (''S'', TSlice TString)]) (VStruct [VInt 1, VSlice [VString ''a'']])
     = (None, [2, 2, 2, 0x61])
   \<and> same_value (VStruct [VInt 1, VSlice [VString ''a'']]) (VStruct [VInt 1, VSlice [VString ''a'']])
   \<and> no_maps (VStruct [VInt 1, VSlice [VString ''a'']])"
proof -
  let ?v = "VStruct [VInt 1, VSlice [VString ''a'']]"
  have s: "same_value ?v ?v" by (rule same_refl)
  have n: "no_maps ?v" by simp
  have e: "Write [] (TStruct [(''A'', TInt), (''S'', TSlice TString)]) ?v = (None, [2, 2, 2, 0x61])"
    by code_simp
  from C9_deterministic [OF s n, of "[]" "TStruct [(''A'', TInt), (''S'', TSlice TString)]"] e s n
  show ?thesis by simp
qed

text \<open>
  For a map the bytes follow the order in which the keys are listed: the same map, shown
  in two orders, gives two byte sequences.
\<close>

lemma map_order_changes_bytes:
  "same_value (VMap [(VString ''a'', VInt 1), (VString ''b'', VInt 2)])
      (VMap [(VString ''b'', VInt 2), (VString ''a'', VInt 1)])
   \<and> Write [] (TMap TString TInt) (VMap [(VString ''a'', VInt 1), (VString ''b'', VInt 2)])
       = (None, [4, 2, 0x61, 2, 2, 0x62, 4])
   \<and> Write [] (TMap TString TInt) (VMap [(VString ''b'', VInt 2), (VString ''a'', VInt 1)])
       = (None, [4, 2, 0x62, 4, 2, 0x61, 2])"
proof -
  have "same_value (VMap [(VString ''a'', VInt 1), (VString ''b'', VInt 2)])
      (VMap [(VString ''b'', VInt 2), (VString ''a'', VInt 1)])"
    by (rule same_map [where kvs' = "[(VString ''a'', VInt 1), (VString ''b'', VInt 2)]"])
      (simp_all add: same_refl)
  moreover have "Write [] (TMap TString TInt) (VMap [(VString ''a'', VInt 1), (VString ''b'', VInt 2)])
       = (None, [4, 2, 0x61, 2, 2, 0x62, 4])" by code_simp
  moreover have "Write [] (TMap TString TInt) (VMap [(VString ''b'', VInt 2), (VString ''a'', VInt 1)])
       = (None, [4, 2, 0x62, 4, 2, 0x61, 2])" by code_simp
  ultimately show ?thesis by (intro conjI)
qed

end
